theory Spec2Isabelle
  imports Main "HOL-Library.Word" "HOL-Library.Sublist"
begin

section \<open>Client side: the sign-up handler and the activity filter\<close>

text \<open>
  A JavaScript string is a sequence of UTF-16 code units; \<open>length\<close> counts code units
  and the empty string is the only falsy string.
\<close>

type_synonym js_string = "16 word list"

definition js :: "string \<Rightarrow> js_string" where
  "js s = map (\<lambda>c. of_nat (of_char c)) s"

fun startsWith :: "js_string \<Rightarrow> js_string \<Rightarrow> bool" where
  "startsWith s [] = True"
| "startsWith [] (c # cs) = False"
| "startsWith (x # xs) (c # cs) = (x = c \<and> startsWith xs cs)"

fun js_includes :: "js_string \<Rightarrow> js_string \<Rightarrow> bool" where
  "js_includes [] sub = (sub = [])"
| "js_includes (x # xs) sub = (startsWith (x # xs) sub \<or> js_includes xs sub)"

subsection \<open>AuthPage: handleSignUp\<close>

text \<open>
  The component state of AuthPage (its four \<open>useState\<close> cells) together with the browser's
  \<open>localStorage\<close>, which \<open>cleanupAuthState\<close> edits.
\<close>

record auth_page =
  isLoading :: bool
  email :: js_string
  password :: js_string
  fullName :: js_string
  localStorage :: "(js_string \<times> js_string) list"

text \<open>The notices the handler can show; each stands for the title and description of one toast call.\<close>

datatype notice =
    CamposObrigatorios
  | SenhaMuitoCurta
  | EmailJaCadastrado
  | ErroNoCadastro js_string
  | CadastroRealizado
  | ErroInesperado js_string

datatype variant = destructive | default_variant

text \<open>What the handler does to the outside, in order.\<close>

datatype effect =
    preventDefault
  | toast variant notice
  | setIsLoading bool
  | cleanupAuthStateCall
  | signOut
  | signUp js_string js_string js_string js_string
  | setLocationHref js_string

text \<open>
  What \<open>supabase.auth.signUp\<close> answers: it throws (with an optional message), it resolves
  with an error message, or it resolves with data whose \<open>user\<close> is present or not.
\<close>

datatype signUp_response =
    signUp_throws js_string
  | signUp_error js_string
  | signUp_data bool

definition cleanupAuthState :: "auth_page \<Rightarrow> auth_page" where
  "cleanupAuthState s =
     s\<lparr>localStorage :=
         filter (\<lambda>(key, v). \<not> (startsWith key (js ''supabase.auth.'') \<or> js_includes key (js ''sb-'')))
           (localStorage s)\<rparr>"

text \<open>
  \<open>handleSignUp\<close>, with the page before the submit, \<open>window.location.origin\<close> and the
  backend's answer to the sign-up request as arguments. The result is the page afterwards and
  the trace of effects. A failing \<open>signOut\<close> is caught and ignored by the source, so its
  outcome is no argument.
\<close>

definition handleSignUp :: "auth_page \<Rightarrow> js_string \<Rightarrow> signUp_response \<Rightarrow> auth_page \<times> effect list" where
  "handleSignUp s origin response =
     (if email s = [] \<or> password s = [] \<or> fullName s = [] then
        (s, [preventDefault, toast destructive CamposObrigatorios])
      else if length (password s) < 6 then
        (s, [preventDefault, toast destructive SenhaMuitoCurta])
      else
        let request = signUp (email s) (password s) (origin @ js ''/'') (fullName s);
            body =
              (case response of
                 signUp_throws message \<Rightarrow>
                   [request,
                    toast destructive
                      (ErroInesperado
                        (if message = [] then js ''Tente novamente em alguns minutos.'' else message))]
               | signUp_error message \<Rightarrow>
                   [request,
                    toast destructive
                      (if js_includes message (js ''already registered'') then EmailJaCadastrado
                       else ErroNoCadastro message)]
               | signUp_data user \<Rightarrow>
                   request #
                     (if user then [toast default_variant CadastroRealizado, setLocationHref (js ''/'')]
                      else []))
        in ((cleanupAuthState (s\<lparr>isLoading := True\<rparr>))\<lparr>isLoading := False\<rparr>,
            [preventDefault, setIsLoading True, cleanupAuthStateCall, signOut] @ body
              @ [setIsLoading False]))"

fun is_signUp :: "effect \<Rightarrow> bool" where
  "is_signUp (signUp e p r n) = True"
| "is_signUp _ = False"

subsection \<open>AtividadesManager: filteredAtividades\<close>

record Turma =
  Turma_id :: js_string
  Turma_nome :: js_string
  Turma_ano_letivo :: js_string
  Turma_periodo :: js_string
  Turma_descricao :: "js_string option"
  Turma_created_at :: js_string

record Atividade =
  Atividade_id :: js_string
  Atividade_titulo :: js_string
  Atividade_descricao :: "js_string option"
  Atividade_data_entrega :: "js_string option"
  Atividade_tipo :: js_string
  Atividade_status :: js_string
  Atividade_turma_id :: js_string
  Atividade_turma :: Turma
  Atividade_created_at :: "js_string option"

definition filteredAtividades :: "Atividade list \<Rightarrow> js_string \<Rightarrow> js_string \<Rightarrow> Atividade list" where
  "filteredAtividades atividades filterTurma filterStatus =
     filter (\<lambda>atividade.
        let matchTurma = (filterTurma = js ''all'' \<or> Atividade_turma_id atividade = filterTurma);
            matchStatus = (filterStatus = js ''all'' \<or> Atividade_status atividade = filterStatus)
        in matchTurma \<and> matchStatus) atividades"

section \<open>The database: schema, policies, triggers\<close>

text \<open>
  The migrations declare three tables over the identity table \<open>auth.users\<close> of the hosting
  service. A table is the list of its rows; a column declared \<open>NOT NULL\<close> holds a value, any
  other column an optional one (\<open>None\<close> is SQL's NULL). The declared keys and references are
  enforced by the statements below, as the database does, and are no part of the types.
\<close>

type_synonym uuid = nat
type_synonym timestamptz = nat
type_synonym date = nat
type_synonym sql_text = string

text \<open>
  \<open>auth.users\<close>: the columns that this schema reads. A JSON object is the list of its
  members, a member being null (\<open>None\<close>) or a value with its text form.
\<close>

record users_row =
  users_id :: uuid
  users_email :: "sql_text option"
  users_raw_user_meta_data :: "(string \<times> sql_text option) list option"

record profiles_row =
  profiles_id :: uuid
  profiles_user_id :: uuid
  profiles_nome :: sql_text
  profiles_email :: sql_text
  profiles_escola :: "sql_text option"
  profiles_created_at :: timestamptz
  profiles_updated_at :: timestamptz

record turmas_row =
  turmas_id :: uuid
  turmas_professor_id :: uuid
  turmas_nome :: sql_text
  turmas_ano_letivo :: sql_text
  turmas_periodo :: "sql_text option"
  turmas_descricao :: "sql_text option"
  turmas_created_at :: timestamptz
  turmas_updated_at :: timestamptz

record atividades_row =
  atividades_id :: uuid
  atividades_turma_id :: uuid
  atividades_titulo :: sql_text
  atividades_descricao :: "sql_text option"
  atividades_data_entrega :: "date option"
  atividades_tipo :: "sql_text option"
  atividades_status :: "sql_text option"
  atividades_created_at :: timestamptz
  atividades_updated_at :: timestamptz

record database =
  auth_users :: "users_row list"
  public_profiles :: "profiles_row list"
  public_turmas :: "turmas_row list"
  public_atividades :: "atividades_row list"

definition empty_database :: database where
  "empty_database = \<lparr>auth_users = [], public_profiles = [], public_turmas = [], public_atividades = []\<rparr>"

text \<open>
  What an INSERT says about one column: nothing (the column's default applies, NULL when it
  has none), an explicit NULL, or a value.
\<close>

datatype 'a arg = DEFAULT | NULL | Val 'a

fun column :: "'a option \<Rightarrow> 'a arg \<Rightarrow> 'a option" where
  "column d DEFAULT = d"
| "column d NULL = None"
| "column d (Val v) = Some v"

record profiles_insert =
  new_profiles_id :: "uuid arg"
  new_profiles_user_id :: "uuid arg"
  new_profiles_nome :: "sql_text arg"
  new_profiles_email :: "sql_text arg"
  new_profiles_escola :: "sql_text arg"
  new_profiles_created_at :: "timestamptz arg"
  new_profiles_updated_at :: "timestamptz arg"

record turmas_insert =
  new_turmas_id :: "uuid arg"
  new_turmas_professor_id :: "uuid arg"
  new_turmas_nome :: "sql_text arg"
  new_turmas_ano_letivo :: "sql_text arg"
  new_turmas_periodo :: "sql_text arg"
  new_turmas_descricao :: "sql_text arg"
  new_turmas_created_at :: "timestamptz arg"
  new_turmas_updated_at :: "timestamptz arg"

record atividades_insert =
  new_atividades_id :: "uuid arg"
  new_atividades_turma_id :: "uuid arg"
  new_atividades_titulo :: "sql_text arg"
  new_atividades_descricao :: "sql_text arg"
  new_atividades_data_entrega :: "date arg"
  new_atividades_tipo :: "sql_text arg"
  new_atividades_status :: "sql_text arg"
  new_atividades_created_at :: "timestamptz arg"
  new_atividades_updated_at :: "timestamptz arg"

text \<open>
  A failing statement changes nothing and reports the violated constraint, or that the row
  level security policy of the table refused the new row.
\<close>

datatype constraint =
    NotNull string string
  | Check string
  | Unique string
  | ForeignKey string

datatype error =
    ConstraintViolation "constraint"
  | RowSecurityViolation string

subsection \<open>CHECK constraints\<close>

text \<open>A CHECK constraint holds when its expression is true or NULL.\<close>

definition turmas_periodo_check :: "sql_text option \<Rightarrow> bool" where
  "turmas_periodo_check periodo =
     (case periodo of None \<Rightarrow> True
      | Some v \<Rightarrow> v \<in> set [''matutino'', ''vespertino'', ''noturno''])"

definition atividades_tipo_check :: "sql_text option \<Rightarrow> bool" where
  "atividades_tipo_check tipo =
     (case tipo of None \<Rightarrow> True
      | Some v \<Rightarrow> v \<in> set [''tarefa'', ''prova'', ''projeto'', ''exercicio'', ''trabalho''])"

definition atividades_status_check :: "sql_text option \<Rightarrow> bool" where
  "atividades_status_check status =
     (case status of None \<Rightarrow> True
      | Some v \<Rightarrow> v \<in> set [''ativa'', ''finalizada'', ''cancelada''])"

subsection \<open>Row level security policies\<close>

text \<open>
  \<open>auth.uid()\<close> is the caller's identity, NULL for a caller who is not signed in. A policy
  admits a row when its expression is true; a comparison with NULL is not.
  The sub-queries of the policies run as the caller, so they see the rows that the SELECT
  policy of the table they read admits.
\<close>

definition profiles_policy :: "uuid option \<Rightarrow> uuid option \<Rightarrow> bool" where
  "profiles_policy uid user_id = (case user_id of None \<Rightarrow> False | Some u \<Rightarrow> uid = Some u)"

definition profiles_select_policy :: "uuid option \<Rightarrow> profiles_row \<Rightarrow> bool" where
  "profiles_select_policy uid r = profiles_policy uid (Some (profiles_user_id r))"

definition profiles_insert_policy :: "uuid option \<Rightarrow> uuid option \<Rightarrow> bool" where
  "profiles_insert_policy uid user_id = profiles_policy uid user_id"

definition profiles_update_policy :: "uuid option \<Rightarrow> profiles_row \<Rightarrow> bool" where
  "profiles_update_policy uid r = profiles_policy uid (Some (profiles_user_id r))"

text \<open>Row level security is enabled on profiles and no policy is declared for DELETE.\<close>

definition profiles_delete_policy :: "uuid option \<Rightarrow> profiles_row \<Rightarrow> bool" where
  "profiles_delete_policy uid r = False"

text \<open>\<open>SELECT id FROM public.profiles WHERE user_id = auth.uid()\<close>\<close>

definition own_profiles :: "database \<Rightarrow> uuid option \<Rightarrow> uuid list" where
  "own_profiles db uid =
     map profiles_id
       (filter (\<lambda>p. uid = Some (profiles_user_id p))
          (filter (profiles_select_policy uid) (public_profiles db)))"

definition turmas_policy :: "database \<Rightarrow> uuid option \<Rightarrow> uuid option \<Rightarrow> bool" where
  "turmas_policy db uid professor_id =
     (case professor_id of None \<Rightarrow> False | Some i \<Rightarrow> i \<in> set (own_profiles db uid))"

definition turmas_select_policy :: "database \<Rightarrow> uuid option \<Rightarrow> turmas_row \<Rightarrow> bool" where
  "turmas_select_policy db uid r = turmas_policy db uid (Some (turmas_professor_id r))"

definition turmas_insert_policy :: "database \<Rightarrow> uuid option \<Rightarrow> uuid option \<Rightarrow> bool" where
  "turmas_insert_policy db uid professor_id = turmas_policy db uid professor_id"

definition turmas_update_policy :: "database \<Rightarrow> uuid option \<Rightarrow> turmas_row \<Rightarrow> bool" where
  "turmas_update_policy db uid r = turmas_policy db uid (Some (turmas_professor_id r))"

definition turmas_delete_policy :: "database \<Rightarrow> uuid option \<Rightarrow> turmas_row \<Rightarrow> bool" where
  "turmas_delete_policy db uid r = turmas_policy db uid (Some (turmas_professor_id r))"

text \<open>
  \<open>SELECT t.id FROM public.turmas t JOIN public.profiles p ON t.professor_id = p.id
  WHERE p.user_id = auth.uid()\<close>
\<close>

definition own_turmas :: "database \<Rightarrow> uuid option \<Rightarrow> uuid list" where
  "own_turmas db uid =
     concat (map (\<lambda>t.
        map (\<lambda>p. turmas_id t)
          (filter (\<lambda>p. turmas_professor_id t = profiles_id p \<and> uid = Some (profiles_user_id p))
             (filter (profiles_select_policy uid) (public_profiles db))))
        (filter (turmas_select_policy db uid) (public_turmas db)))"

definition atividades_policy :: "database \<Rightarrow> uuid option \<Rightarrow> uuid option \<Rightarrow> bool" where
  "atividades_policy db uid turma_id =
     (case turma_id of None \<Rightarrow> False | Some i \<Rightarrow> i \<in> set (own_turmas db uid))"

definition atividades_select_policy :: "database \<Rightarrow> uuid option \<Rightarrow> atividades_row \<Rightarrow> bool" where
  "atividades_select_policy db uid r = atividades_policy db uid (Some (atividades_turma_id r))"

definition atividades_insert_policy :: "database \<Rightarrow> uuid option \<Rightarrow> uuid option \<Rightarrow> bool" where
  "atividades_insert_policy db uid turma_id = atividades_policy db uid turma_id"

definition atividades_update_policy :: "database \<Rightarrow> uuid option \<Rightarrow> atividades_row \<Rightarrow> bool" where
  "atividades_update_policy db uid r = atividades_policy db uid (Some (atividades_turma_id r))"

definition atividades_delete_policy :: "database \<Rightarrow> uuid option \<Rightarrow> atividades_row \<Rightarrow> bool" where
  "atividades_delete_policy db uid r = atividades_policy db uid (Some (atividades_turma_id r))"

subsection \<open>Triggers\<close>

text \<open>
  \<open>update_updated_at_column\<close> runs BEFORE UPDATE, FOR EACH ROW, on each of the three tables:
  \<open>NEW.updated_at = now(); RETURN NEW\<close>.
\<close>

definition update_profiles_updated_at :: "timestamptz \<Rightarrow> profiles_row \<Rightarrow> profiles_row" where
  "update_profiles_updated_at now NEW = NEW\<lparr>profiles_updated_at := now\<rparr>"

definition update_turmas_updated_at :: "timestamptz \<Rightarrow> turmas_row \<Rightarrow> turmas_row" where
  "update_turmas_updated_at now NEW = NEW\<lparr>turmas_updated_at := now\<rparr>"

definition update_atividades_updated_at :: "timestamptz \<Rightarrow> atividades_row \<Rightarrow> atividades_row" where
  "update_atividades_updated_at now NEW = NEW\<lparr>atividades_updated_at := now\<rparr>"

subsection \<open>Referential actions\<close>

text \<open>
  Each of the three references is declared ON DELETE CASCADE: when rows of the referenced table
  are deleted, the database itself deletes the rows that reference their keys, whoever the
  caller is, and so on down the chain.
\<close>

definition cascade_atividades :: "uuid list \<Rightarrow> database \<Rightarrow> database" where
  "cascade_atividades deleted_turmas db =
     db\<lparr>public_atividades :=
          filter (\<lambda>a. atividades_turma_id a \<notin> set deleted_turmas) (public_atividades db)\<rparr>"

definition cascade_turmas :: "uuid list \<Rightarrow> database \<Rightarrow> database" where
  "cascade_turmas deleted_profiles db =
     cascade_atividades
       (map turmas_id
          (filter (\<lambda>t. turmas_professor_id t \<in> set deleted_profiles) (public_turmas db)))
       (db\<lparr>public_turmas :=
             filter (\<lambda>t. turmas_professor_id t \<notin> set deleted_profiles) (public_turmas db)\<rparr>)"

definition cascade_profiles :: "uuid list \<Rightarrow> database \<Rightarrow> database" where
  "cascade_profiles deleted_users db =
     cascade_turmas
       (map profiles_id
          (filter (\<lambda>p. profiles_user_id p \<in> set deleted_users) (public_profiles db)))
       (db\<lparr>public_profiles :=
             filter (\<lambda>p. profiles_user_id p \<notin> set deleted_users) (public_profiles db)\<rparr>)"

subsection \<open>Statements on profiles\<close>

text \<open>
  A statement runs against the database \<open>db\<close> for the caller \<open>uid\<close> at the time \<open>now\<close>;
  \<open>fresh\<close> is what \<open>gen_random_uuid()\<close> returns when the statement asks for it. A WHERE
  clause is a predicate on rows and a SET clause a function on rows. A new row is checked in
  the database's order: the policy's WITH CHECK, NOT NULL columns, CHECK constraints, unique
  keys, and the foreign keys at the end of the statement.
\<close>

definition select_profiles :: "database \<Rightarrow> uuid option \<Rightarrow> (profiles_row \<Rightarrow> bool) \<Rightarrow> profiles_row list" where
  "select_profiles db uid wher = filter wher (filter (profiles_select_policy uid) (public_profiles db))"

text \<open>The insert proper, as the table's owner runs it (no policy applies to the owner).\<close>

definition insert_profiles_row :: "database \<Rightarrow> timestamptz \<Rightarrow> uuid \<Rightarrow> profiles_insert \<Rightarrow> error + database" where
  "insert_profiles_row db now fresh r =
     (let id = column (Some fresh) (new_profiles_id r);
          user_id = column None (new_profiles_user_id r);
          nome = column None (new_profiles_nome r);
          email = column None (new_profiles_email r);
          escola = column None (new_profiles_escola r);
          created_at = column (Some now) (new_profiles_created_at r);
          updated_at = column (Some now) (new_profiles_updated_at r)
      in if id = None then Inl (ConstraintViolation (NotNull ''profiles'' ''id''))
         else if user_id = None then Inl (ConstraintViolation (NotNull ''profiles'' ''user_id''))
         else if nome = None then Inl (ConstraintViolation (NotNull ''profiles'' ''nome''))
         else if email = None then Inl (ConstraintViolation (NotNull ''profiles'' ''email''))
         else if created_at = None then Inl (ConstraintViolation (NotNull ''profiles'' ''created_at''))
         else if updated_at = None then Inl (ConstraintViolation (NotNull ''profiles'' ''updated_at''))
         else if the id \<in> set (map profiles_id (public_profiles db))
           then Inl (ConstraintViolation (Unique ''profiles_pkey''))
         else if the user_id \<in> set (map profiles_user_id (public_profiles db))
           then Inl (ConstraintViolation (Unique ''profiles_user_id_key''))
         else if the user_id \<notin> set (map users_id (auth_users db))
           then Inl (ConstraintViolation (ForeignKey ''profiles_user_id_fkey''))
         else Inr (db\<lparr>public_profiles := public_profiles db @
                 [\<lparr>profiles_id = the id, profiles_user_id = the user_id, profiles_nome = the nome,
                   profiles_email = the email, profiles_escola = escola,
                   profiles_created_at = the created_at, profiles_updated_at = the updated_at\<rparr>]\<rparr>))"

definition insert_profiles :: "database \<Rightarrow> uuid option \<Rightarrow> timestamptz \<Rightarrow> uuid \<Rightarrow> profiles_insert \<Rightarrow> error + database" where
  "insert_profiles db uid now fresh r =
     (if \<not> profiles_insert_policy uid (column None (new_profiles_user_id r))
      then Inl (RowSecurityViolation ''profiles'')
      else insert_profiles_row db now fresh r)"

text \<open>
  An UPDATE writes the rows that the SELECT and UPDATE policies admit and the WHERE clause
  selects. The BEFORE UPDATE trigger runs on each new row before it is checked. The UPDATE
  policy declares no WITH CHECK, so its USING expression is the check of the new rows. The
  result is the database afterwards and the number of rows written.
\<close>

definition update_profiles :: "database \<Rightarrow> uuid option \<Rightarrow> timestamptz \<Rightarrow> (profiles_row \<Rightarrow> bool) \<Rightarrow> (profiles_row \<Rightarrow> profiles_row) \<Rightarrow> error + database \<times> nat" where
  "update_profiles db uid now wher set_clause =
     (let target = (\<lambda>r. profiles_select_policy uid r \<and> profiles_update_policy uid r \<and> wher r);
          new = (\<lambda>r. update_profiles_updated_at now (set_clause r));
          old_rows = filter target (public_profiles db);
          rows = map (\<lambda>r. if target r then new r else r) (public_profiles db)
      in if \<exists>r \<in> set old_rows. \<not> profiles_update_policy uid (new r)
           then Inl (RowSecurityViolation ''profiles'')
         else if \<exists>r \<in> set old_rows. 1 < count_list (map profiles_id rows) (profiles_id (new r))
           then Inl (ConstraintViolation (Unique ''profiles_pkey''))
         else if \<exists>r \<in> set old_rows. 1 < count_list (map profiles_user_id rows) (profiles_user_id (new r))
           then Inl (ConstraintViolation (Unique ''profiles_user_id_key''))
         else if \<exists>r \<in> set old_rows. profiles_user_id (new r) \<noteq> profiles_user_id r
                  \<and> profiles_user_id (new r) \<notin> set (map users_id (auth_users db))
           then Inl (ConstraintViolation (ForeignKey ''profiles_user_id_fkey''))
         else if \<exists>r \<in> set old_rows. profiles_id (new r) \<noteq> profiles_id r
                  \<and> profiles_id r \<notin> set (map profiles_id rows)
                  \<and> profiles_id r \<in> set (map turmas_professor_id (public_turmas db))
           then Inl (ConstraintViolation (ForeignKey ''turmas_professor_id_fkey''))
         else Inr (db\<lparr>public_profiles := rows\<rparr>, length old_rows))"

definition delete_profiles :: "database \<Rightarrow> uuid option \<Rightarrow> (profiles_row \<Rightarrow> bool) \<Rightarrow> database \<times> nat" where
  "delete_profiles db uid wher =
     (let target = (\<lambda>r. profiles_select_policy uid r \<and> profiles_delete_policy uid r \<and> wher r);
          old_rows = filter target (public_profiles db)
      in (cascade_turmas (map profiles_id old_rows)
            (db\<lparr>public_profiles := filter (\<lambda>r. \<not> target r) (public_profiles db)\<rparr>),
          length old_rows))"

subsection \<open>Statements on turmas\<close>

definition select_turmas :: "database \<Rightarrow> uuid option \<Rightarrow> (turmas_row \<Rightarrow> bool) \<Rightarrow> turmas_row list" where
  "select_turmas db uid wher = filter wher (filter (turmas_select_policy db uid) (public_turmas db))"

definition insert_turmas :: "database \<Rightarrow> uuid option \<Rightarrow> timestamptz \<Rightarrow> uuid \<Rightarrow> turmas_insert \<Rightarrow> error + database" where
  "insert_turmas db uid now fresh r =
     (let id = column (Some fresh) (new_turmas_id r);
          professor_id = column None (new_turmas_professor_id r);
          nome = column None (new_turmas_nome r);
          ano_letivo = column None (new_turmas_ano_letivo r);
          periodo = column None (new_turmas_periodo r);
          descricao = column None (new_turmas_descricao r);
          created_at = column (Some now) (new_turmas_created_at r);
          updated_at = column (Some now) (new_turmas_updated_at r)
      in if \<not> turmas_insert_policy db uid professor_id then Inl (RowSecurityViolation ''turmas'')
         else if id = None then Inl (ConstraintViolation (NotNull ''turmas'' ''id''))
         else if professor_id = None then Inl (ConstraintViolation (NotNull ''turmas'' ''professor_id''))
         else if nome = None then Inl (ConstraintViolation (NotNull ''turmas'' ''nome''))
         else if ano_letivo = None then Inl (ConstraintViolation (NotNull ''turmas'' ''ano_letivo''))
         else if created_at = None then Inl (ConstraintViolation (NotNull ''turmas'' ''created_at''))
         else if updated_at = None then Inl (ConstraintViolation (NotNull ''turmas'' ''updated_at''))
         else if \<not> turmas_periodo_check periodo
           then Inl (ConstraintViolation (Check ''turmas_periodo_check''))
         else if the id \<in> set (map turmas_id (public_turmas db))
           then Inl (ConstraintViolation (Unique ''turmas_pkey''))
         else if the professor_id \<notin> set (map profiles_id (public_profiles db))
           then Inl (ConstraintViolation (ForeignKey ''turmas_professor_id_fkey''))
         else Inr (db\<lparr>public_turmas := public_turmas db @
                 [\<lparr>turmas_id = the id, turmas_professor_id = the professor_id, turmas_nome = the nome,
                   turmas_ano_letivo = the ano_letivo, turmas_periodo = periodo,
                   turmas_descricao = descricao, turmas_created_at = the created_at,
                   turmas_updated_at = the updated_at\<rparr>]\<rparr>))"

definition update_turmas :: "database \<Rightarrow> uuid option \<Rightarrow> timestamptz \<Rightarrow> (turmas_row \<Rightarrow> bool) \<Rightarrow> (turmas_row \<Rightarrow> turmas_row) \<Rightarrow> error + database \<times> nat" where
  "update_turmas db uid now wher set_clause =
     (let target = (\<lambda>r. turmas_select_policy db uid r \<and> turmas_update_policy db uid r \<and> wher r);
          new = (\<lambda>r. update_turmas_updated_at now (set_clause r));
          old_rows = filter target (public_turmas db);
          rows = map (\<lambda>r. if target r then new r else r) (public_turmas db)
      in if \<exists>r \<in> set old_rows. \<not> turmas_update_policy db uid (new r)
           then Inl (RowSecurityViolation ''turmas'')
         else if \<exists>r \<in> set old_rows. \<not> turmas_periodo_check (turmas_periodo (new r))
           then Inl (ConstraintViolation (Check ''turmas_periodo_check''))
         else if \<exists>r \<in> set old_rows. 1 < count_list (map turmas_id rows) (turmas_id (new r))
           then Inl (ConstraintViolation (Unique ''turmas_pkey''))
         else if \<exists>r \<in> set old_rows. turmas_professor_id (new r) \<noteq> turmas_professor_id r
                  \<and> turmas_professor_id (new r) \<notin> set (map profiles_id (public_profiles db))
           then Inl (ConstraintViolation (ForeignKey ''turmas_professor_id_fkey''))
         else if \<exists>r \<in> set old_rows. turmas_id (new r) \<noteq> turmas_id r
                  \<and> turmas_id r \<notin> set (map turmas_id rows)
                  \<and> turmas_id r \<in> set (map atividades_turma_id (public_atividades db))
           then Inl (ConstraintViolation (ForeignKey ''atividades_turma_id_fkey''))
         else Inr (db\<lparr>public_turmas := rows\<rparr>, length old_rows))"

definition delete_turmas :: "database \<Rightarrow> uuid option \<Rightarrow> (turmas_row \<Rightarrow> bool) \<Rightarrow> database \<times> nat" where
  "delete_turmas db uid wher =
     (let target = (\<lambda>r. turmas_select_policy db uid r \<and> turmas_delete_policy db uid r \<and> wher r);
          old_rows = filter target (public_turmas db)
      in (cascade_atividades (map turmas_id old_rows)
            (db\<lparr>public_turmas := filter (\<lambda>r. \<not> target r) (public_turmas db)\<rparr>),
          length old_rows))"

subsection \<open>Statements on atividades\<close>

definition select_atividades :: "database \<Rightarrow> uuid option \<Rightarrow> (atividades_row \<Rightarrow> bool) \<Rightarrow> atividades_row list" where
  "select_atividades db uid wher =
     filter wher (filter (atividades_select_policy db uid) (public_atividades db))"

definition insert_atividades :: "database \<Rightarrow> uuid option \<Rightarrow> timestamptz \<Rightarrow> uuid \<Rightarrow> atividades_insert \<Rightarrow> error + database" where
  "insert_atividades db uid now fresh r =
     (let id = column (Some fresh) (new_atividades_id r);
          turma_id = column None (new_atividades_turma_id r);
          titulo = column None (new_atividades_titulo r);
          descricao = column None (new_atividades_descricao r);
          data_entrega = column None (new_atividades_data_entrega r);
          tipo = column None (new_atividades_tipo r);
          status = column (Some ''ativa'') (new_atividades_status r);
          created_at = column (Some now) (new_atividades_created_at r);
          updated_at = column (Some now) (new_atividades_updated_at r)
      in if \<not> atividades_insert_policy db uid turma_id then Inl (RowSecurityViolation ''atividades'')
         else if id = None then Inl (ConstraintViolation (NotNull ''atividades'' ''id''))
         else if turma_id = None then Inl (ConstraintViolation (NotNull ''atividades'' ''turma_id''))
         else if titulo = None then Inl (ConstraintViolation (NotNull ''atividades'' ''titulo''))
         else if created_at = None then Inl (ConstraintViolation (NotNull ''atividades'' ''created_at''))
         else if updated_at = None then Inl (ConstraintViolation (NotNull ''atividades'' ''updated_at''))
         else if \<not> atividades_status_check status
           then Inl (ConstraintViolation (Check ''atividades_status_check''))
         else if \<not> atividades_tipo_check tipo
           then Inl (ConstraintViolation (Check ''atividades_tipo_check''))
         else if the id \<in> set (map atividades_id (public_atividades db))
           then Inl (ConstraintViolation (Unique ''atividades_pkey''))
         else if the turma_id \<notin> set (map turmas_id (public_turmas db))
           then Inl (ConstraintViolation (ForeignKey ''atividades_turma_id_fkey''))
         else Inr (db\<lparr>public_atividades := public_atividades db @
                 [\<lparr>atividades_id = the id, atividades_turma_id = the turma_id,
                   atividades_titulo = the titulo, atividades_descricao = descricao,
                   atividades_data_entrega = data_entrega, atividades_tipo = tipo,
                   atividades_status = status, atividades_created_at = the created_at,
                   atividades_updated_at = the updated_at\<rparr>]\<rparr>))"

definition update_atividades :: "database \<Rightarrow> uuid option \<Rightarrow> timestamptz \<Rightarrow> (atividades_row \<Rightarrow> bool) \<Rightarrow> (atividades_row \<Rightarrow> atividades_row) \<Rightarrow> error + database \<times> nat" where
  "update_atividades db uid now wher set_clause =
     (let target = (\<lambda>r. atividades_select_policy db uid r \<and> atividades_update_policy db uid r \<and> wher r);
          new = (\<lambda>r. update_atividades_updated_at now (set_clause r));
          old_rows = filter target (public_atividades db);
          rows = map (\<lambda>r. if target r then new r else r) (public_atividades db)
      in if \<exists>r \<in> set old_rows. \<not> atividades_update_policy db uid (new r)
           then Inl (RowSecurityViolation ''atividades'')
         else if \<exists>r \<in> set old_rows. \<not> atividades_status_check (atividades_status (new r))
           then Inl (ConstraintViolation (Check ''atividades_status_check''))
         else if \<exists>r \<in> set old_rows. \<not> atividades_tipo_check (atividades_tipo (new r))
           then Inl (ConstraintViolation (Check ''atividades_tipo_check''))
         else if \<exists>r \<in> set old_rows. 1 < count_list (map atividades_id rows) (atividades_id (new r))
           then Inl (ConstraintViolation (Unique ''atividades_pkey''))
         else if \<exists>r \<in> set old_rows. atividades_turma_id (new r) \<noteq> atividades_turma_id r
                  \<and> atividades_turma_id (new r) \<notin> set (map turmas_id (public_turmas db))
           then Inl (ConstraintViolation (ForeignKey ''atividades_turma_id_fkey''))
         else Inr (db\<lparr>public_atividades := rows\<rparr>, length old_rows))"

definition delete_atividades :: "database \<Rightarrow> uuid option \<Rightarrow> (atividades_row \<Rightarrow> bool) \<Rightarrow> database \<times> nat" where
  "delete_atividades db uid wher =
     (let target = (\<lambda>r. atividades_select_policy db uid r \<and> atividades_delete_policy db uid r \<and> wher r);
          old_rows = filter target (public_atividades db)
      in (db\<lparr>public_atividades := filter (\<lambda>r. \<not> target r) (public_atividades db)\<rparr>,
          length old_rows))"

subsection \<open>Identities\<close>

text \<open>\<open>NEW.raw_user_meta_data ->> 'full_name'\<close>: the member's text, NULL when there is none.\<close>

definition json_get_text :: "(string \<times> sql_text option) list option \<Rightarrow> string \<Rightarrow> sql_text option" where
  "json_get_text j k =
     (case j of None \<Rightarrow> None
      | Some members \<Rightarrow> (case map_of members k of None \<Rightarrow> None | Some v \<Rightarrow> v))"

fun COALESCE :: "'a option \<Rightarrow> 'a \<Rightarrow> 'a" where
  "COALESCE None d = d"
| "COALESCE (Some v) d = v"

text \<open>
  \<open>handle_new_user\<close>, the SECURITY DEFINER trigger function: it inserts as the owner of the
  table, with the id and the two timestamps left to their defaults.
\<close>

definition handle_new_user :: "database \<Rightarrow> timestamptz \<Rightarrow> uuid \<Rightarrow> users_row \<Rightarrow> error + database" where
  "handle_new_user db now fresh NEW =
     insert_profiles_row db now fresh
       \<lparr>new_profiles_id = DEFAULT,
        new_profiles_user_id = Val (users_id NEW),
        new_profiles_nome =
          Val (COALESCE (json_get_text (users_raw_user_meta_data NEW) ''full_name'') ''Professor''),
        new_profiles_email = (case users_email NEW of None \<Rightarrow> NULL | Some e \<Rightarrow> Val e),
        new_profiles_escola = DEFAULT,
        new_profiles_created_at = DEFAULT,
        new_profiles_updated_at = DEFAULT\<rparr>"

text \<open>
  The identity service inserts the row \<open>NEW\<close> into \<open>auth.users\<close>; the trigger
  \<open>on_auth_user_created\<close> runs \<open>handle_new_user\<close> AFTER INSERT, FOR EACH ROW, inside the
  inserting transaction, so that an error of the trigger undoes the insert.
\<close>

definition create_user :: "database \<Rightarrow> timestamptz \<Rightarrow> uuid \<Rightarrow> users_row \<Rightarrow> error + database" where
  "create_user db now fresh NEW =
     (if users_id NEW \<in> set (map users_id (auth_users db))
      then Inl (ConstraintViolation (Unique ''users_pkey''))
      else handle_new_user (db\<lparr>auth_users := auth_users db @ [NEW]\<rparr>) now fresh NEW)"

text \<open>The identity service deletes an identity; the references cascade.\<close>

definition delete_user :: "database \<Rightarrow> uuid \<Rightarrow> database" where
  "delete_user db u =
     cascade_profiles [u] (db\<lparr>auth_users := filter (\<lambda>r. users_id r \<noteq> u) (auth_users db)\<rparr>)"

subsection \<open>Reachable databases\<close>

text \<open>
  The databases that the statements above produce from the empty one: identities come and go
  through the identity service, and every other change is a statement of some caller on one of
  the three tables.
\<close>

inductive reachable :: "database \<Rightarrow> bool" where
  init: "reachable empty_database"
| create_user: "reachable db \<Longrightarrow> create_user db now fresh NEW = Inr db' \<Longrightarrow> reachable db'"
| delete_user: "reachable db \<Longrightarrow> reachable (delete_user db u)"
| insert_profiles: "reachable db \<Longrightarrow> insert_profiles db uid now fresh pr = Inr db' \<Longrightarrow> reachable db'"
| update_profiles: "reachable db \<Longrightarrow> update_profiles db uid now pw ps = Inr (db', n) \<Longrightarrow> reachable db'"
| delete_profiles: "reachable db \<Longrightarrow> reachable (fst (delete_profiles db uid pw))"
| insert_turmas: "reachable db \<Longrightarrow> insert_turmas db uid now fresh tr = Inr db' \<Longrightarrow> reachable db'"
| update_turmas: "reachable db \<Longrightarrow> update_turmas db uid now tw ts = Inr (db', n) \<Longrightarrow> reachable db'"
| delete_turmas: "reachable db \<Longrightarrow> reachable (fst (delete_turmas db uid tw))"
| insert_atividades: "reachable db \<Longrightarrow> insert_atividades db uid now fresh ar = Inr db' \<Longrightarrow> reachable db'"
| update_atividades: "reachable db \<Longrightarrow> update_atividades db uid now aw as = Inr (db', n) \<Longrightarrow> reachable db'"
| delete_atividades: "reachable db \<Longrightarrow> reachable (fst (delete_atividades db uid aw))"

subsection \<open>Ownership chains\<close>

text \<open>
  The rows that a caller reaches by walking the references down from the caller's identity: the
  caller's profiles, the classes of those profiles, the assignments of those classes.
\<close>

definition caller_profiles :: "database \<Rightarrow> uuid option \<Rightarrow> profiles_row list" where
  "caller_profiles db uid = filter (\<lambda>p. uid = Some (profiles_user_id p)) (public_profiles db)"

definition caller_turmas :: "database \<Rightarrow> uuid option \<Rightarrow> turmas_row list" where
  "caller_turmas db uid =
     filter (\<lambda>t. turmas_professor_id t \<in> set (map profiles_id (caller_profiles db uid)))
       (public_turmas db)"

definition caller_atividades :: "database \<Rightarrow> uuid option \<Rightarrow> atividades_row list" where
  "caller_atividades db uid =
     filter (\<lambda>a. atividades_turma_id a \<in> set (map turmas_id (caller_turmas db uid)))
       (public_atividades db)"

subsection \<open>Invariants\<close>

text \<open>
  What the declared keys and references promise, as predicates on databases: each identity has
  a profile and no two profiles share an identity; each class has its profile and each
  assignment its class; the primary keys and the unique key of profiles hold.
\<close>

definition identities_have_profiles :: "database \<Rightarrow> bool" where
  "identities_have_profiles db \<longleftrightarrow>
     (\<forall>u \<in> set (auth_users db). users_id u \<in> set (map profiles_user_id (public_profiles db)))
     \<and> distinct (map profiles_user_id (public_profiles db))"

definition turmas_have_profiles :: "database \<Rightarrow> bool" where
  "turmas_have_profiles db \<longleftrightarrow>
     (\<forall>t \<in> set (public_turmas db).
         turmas_professor_id t \<in> set (map profiles_id (public_profiles db)))"

definition atividades_have_turmas :: "database \<Rightarrow> bool" where
  "atividades_have_turmas db \<longleftrightarrow>
     (\<forall>a \<in> set (public_atividades db).
         atividades_turma_id a \<in> set (map turmas_id (public_turmas db)))"

definition keys_hold :: "database \<Rightarrow> bool" where
  "keys_hold db \<longleftrightarrow>
     distinct (map users_id (auth_users db))
     \<and> distinct (map profiles_id (public_profiles db))
     \<and> distinct (map profiles_user_id (public_profiles db))
     \<and> distinct (map turmas_id (public_turmas db))
     \<and> distinct (map atividades_id (public_atividades db))"

subsection \<open>Statements of callers\<close>

text \<open>The statements that a caller can run on the three tables, as steps between databases.\<close>

inductive caller_step :: "database \<Rightarrow> database \<Rightarrow> bool" where
  insert_profiles: "insert_profiles db uid now fresh pr = Inr db' \<Longrightarrow> caller_step db db'"
| update_profiles: "update_profiles db uid now pw ps = Inr (db', n) \<Longrightarrow> caller_step db db'"
| delete_profiles: "caller_step db (fst (delete_profiles db uid pw))"
| insert_turmas: "insert_turmas db uid now fresh tr = Inr db' \<Longrightarrow> caller_step db db'"
| update_turmas: "update_turmas db uid now tw ts = Inr (db', n) \<Longrightarrow> caller_step db db'"
| delete_turmas: "caller_step db (fst (delete_turmas db uid tw))"
| insert_atividades: "insert_atividades db uid now fresh ar = Inr db' \<Longrightarrow> caller_step db db'"
| update_atividades: "update_atividades db uid now aw as = Inr (db', n) \<Longrightarrow> caller_step db db'"
| delete_atividades: "caller_step db (fst (delete_atividades db uid aw))"

section \<open>Example data\<close>

text \<open>
  Two identities and their profiles, a class of the first with one assignment, and the requests
  that build them; a sign-up form with a short password; two activities for the filter.
\<close>

definition page_short_password :: auth_page where
  "page_short_password =
     \<lparr>isLoading = False, email = js ''a@b.c'', password = js ''12345'', fullName = js ''Ana'',
      localStorage = [(js ''sb-token'', js ''x'')]\<rparr>"

definition example_user_1 :: users_row where
  "example_user_1 = \<lparr>users_id = 1, users_email = Some ''u1@escola.br'',
     users_raw_user_meta_data = Some [(''full_name'', Some ''Ana'')]\<rparr>"

definition example_user_2 :: users_row where
  "example_user_2 = \<lparr>users_id = 2, users_email = Some ''u2@escola.br'',
     users_raw_user_meta_data = None\<rparr>"

definition example_profile_1 :: profiles_row where
  "example_profile_1 = \<lparr>profiles_id = 10, profiles_user_id = 1, profiles_nome = ''Ana'',
     profiles_email = ''u1@escola.br'', profiles_escola = None,
     profiles_created_at = 100, profiles_updated_at = 100\<rparr>"

definition example_profile_2 :: profiles_row where
  "example_profile_2 = \<lparr>profiles_id = 20, profiles_user_id = 2, profiles_nome = ''Professor'',
     profiles_email = ''u2@escola.br'', profiles_escola = None,
     profiles_created_at = 101, profiles_updated_at = 101\<rparr>"

definition example_turma :: turmas_row where
  "example_turma = \<lparr>turmas_id = 30, turmas_professor_id = 10, turmas_nome = ''5o Ano A'',
     turmas_ano_letivo = ''2025'', turmas_periodo = Some ''matutino'', turmas_descricao = None,
     turmas_created_at = 102, turmas_updated_at = 102\<rparr>"

definition example_atividade :: atividades_row where
  "example_atividade = \<lparr>atividades_id = 40, atividades_turma_id = 30,
     atividades_titulo = ''Prova de Matematica'', atividades_descricao = None,
     atividades_data_entrega = None, atividades_tipo = Some ''prova'',
     atividades_status = Some ''ativa'', atividades_created_at = 103,
     atividades_updated_at = 103\<rparr>"

definition example_turma_insert :: turmas_insert where
  "example_turma_insert = \<lparr>new_turmas_id = DEFAULT, new_turmas_professor_id = Val 10,
     new_turmas_nome = Val ''5o Ano A'', new_turmas_ano_letivo = Val ''2025'',
     new_turmas_periodo = Val ''matutino'', new_turmas_descricao = DEFAULT,
     new_turmas_created_at = DEFAULT, new_turmas_updated_at = DEFAULT\<rparr>"

definition example_atividade_insert :: atividades_insert where
  "example_atividade_insert = \<lparr>new_atividades_id = DEFAULT, new_atividades_turma_id = Val 30,
     new_atividades_titulo = Val ''Prova de Matematica'', new_atividades_descricao = NULL,
     new_atividades_data_entrega = NULL, new_atividades_tipo = Val ''prova'',
     new_atividades_status = DEFAULT, new_atividades_created_at = DEFAULT,
     new_atividades_updated_at = DEFAULT\<rparr>"

definition example_db_1 :: database where
  "example_db_1 = \<lparr>auth_users = [example_user_1], public_profiles = [example_profile_1],
     public_turmas = [], public_atividades = []\<rparr>"

definition example_db_2 :: database where
  "example_db_2 = \<lparr>auth_users = [example_user_1, example_user_2],
     public_profiles = [example_profile_1, example_profile_2],
     public_turmas = [], public_atividades = []\<rparr>"

definition example_db_3 :: database where
  "example_db_3 = \<lparr>auth_users = [example_user_1, example_user_2],
     public_profiles = [example_profile_1, example_profile_2],
     public_turmas = [example_turma], public_atividades = []\<rparr>"

definition example_db :: database where
  "example_db = \<lparr>auth_users = [example_user_1, example_user_2],
     public_profiles = [example_profile_1, example_profile_2],
     public_turmas = [example_turma], public_atividades = [example_atividade]\<rparr>"

definition example_where :: "turmas_row \<Rightarrow> bool" where
  "example_where r \<longleftrightarrow> turmas_id r = 30"

definition example_rename :: "turmas_row \<Rightarrow> turmas_row" where
  "example_rename r = r\<lparr>turmas_nome := ''5o Ano B'', turmas_updated_at := 0\<rparr>"

definition example_finish :: "atividades_row \<Rightarrow> atividades_row" where
  "example_finish r = r\<lparr>atividades_status := Some ''finalizada''\<rparr>"

definition example_all_profiles :: "profiles_row \<Rightarrow> bool" where
  "example_all_profiles r \<longleftrightarrow> True"

definition essay_insert :: atividades_insert where
  "essay_insert = \<lparr>new_atividades_id = DEFAULT, new_atividades_turma_id = Val 30,
     new_atividades_titulo = Val ''Redacao'', new_atividades_descricao = DEFAULT,
     new_atividades_data_entrega = DEFAULT, new_atividades_tipo = Val ''redacao'',
     new_atividades_status = DEFAULT, new_atividades_created_at = DEFAULT,
     new_atividades_updated_at = DEFAULT\<rparr>"

definition future_turma_insert :: turmas_insert where
  "future_turma_insert = \<lparr>new_turmas_id = DEFAULT, new_turmas_professor_id = Val 10,
     new_turmas_nome = Val ''5o Ano A'', new_turmas_ano_letivo = Val ''2025'',
     new_turmas_periodo = Val ''matutino'', new_turmas_descricao = DEFAULT,
     new_turmas_created_at = DEFAULT, new_turmas_updated_at = Val 1000\<rparr>"

definition future_db :: database where
  "future_db = \<lparr>auth_users = [example_user_1, example_user_2],
     public_profiles = [example_profile_1, example_profile_2],
     public_turmas = [example_turma\<lparr>turmas_updated_at := 1000\<rparr>], public_atividades = []\<rparr>"

definition future_db_renamed :: database where
  "future_db_renamed = \<lparr>auth_users = [example_user_1, example_user_2],
     public_profiles = [example_profile_1, example_profile_2],
     public_turmas = [example_turma\<lparr>turmas_nome := ''5o Ano B'', turmas_updated_at := 200\<rparr>],
     public_atividades = []\<rparr>"

definition example_Turma :: Turma where
  "example_Turma = \<lparr>Turma_id = js ''t1'', Turma_nome = js ''5o Ano A'',
     Turma_ano_letivo = js ''2025'', Turma_periodo = js ''matutino'', Turma_descricao = None,
     Turma_created_at = js ''2025-08-18''\<rparr>"

definition example_Atividade_1 :: Atividade where
  "example_Atividade_1 = \<lparr>Atividade_id = js ''a1'', Atividade_titulo = js ''Prova'',
     Atividade_descricao = None, Atividade_data_entrega = None, Atividade_tipo = js ''prova'',
     Atividade_status = js ''ativa'', Atividade_turma_id = js ''t1'',
     Atividade_turma = example_Turma, Atividade_created_at = None\<rparr>"

definition example_Atividade_2 :: Atividade where
  "example_Atividade_2 = \<lparr>Atividade_id = js ''a2'', Atividade_titulo = js ''Tarefa'',
     Atividade_descricao = None, Atividade_data_entrega = None, Atividade_tipo = js ''tarefa'',
     Atividade_status = js ''finalizada'', Atividade_turma_id = js ''t2'',
     Atividade_turma = example_Turma\<lparr>Turma_id := js ''t2''\<rparr>, Atividade_created_at = None\<rparr>"

section \<open>Properties of the client side\<close>

lemma handleSignUp_empty:
  "email s = [] \<or> password s = [] \<or> fullName s = [] \<Longrightarrow>
   handleSignUp s origin response = (s, [preventDefault, toast destructive CamposObrigatorios])"
  by (simp add: handleSignUp_def)

lemma handleSignUp_short:
  "\<not> (email s = [] \<or> password s = [] \<or> fullName s = []) \<Longrightarrow> length (password s) < 6 \<Longrightarrow>
   handleSignUp s origin response = (s, [preventDefault, toast destructive SenhaMuitoCurta])"
  by (simp add: handleSignUp_def)

text \<open>
  C9. When fullName, email or password is empty, or the password has fewer than 6 code
  units, \<open>handleSignUp\<close> leaves the page (component state and localStorage) as it was, its
  trace holds no sign-up request, and all it does is cancel the form's default submit and show
  one error notice.
\<close>

theorem handleSignUp_rejects_invalid_form:
  assumes "fullName s = [] \<or> email s = [] \<or> password s = [] \<or> length (password s) < 6"
  shows "fst (handleSignUp s origin response) = s
       \<and> \<not> list_ex is_signUp (snd (handleSignUp s origin response))
       \<and> (snd (handleSignUp s origin response) = [preventDefault, toast destructive CamposObrigatorios]
          \<or> snd (handleSignUp s origin response) = [preventDefault, toast destructive SenhaMuitoCurta])"
proof (cases "email s = [] \<or> password s = [] \<or> fullName s = []")
  case True
  then show ?thesis by (simp add: handleSignUp_empty)
next
  case False
  with assms have "length (password s) < 6" by blast
  with False show ?thesis by (simp add: handleSignUp_short)
qed

theorem handleSignUp_rejects_invalid_form_witness:
  "length (password page_short_password) < 6
   \<and> handleSignUp page_short_password (js ''http://h'') (signUp_data True)
       = (page_short_password, [preventDefault, toast destructive SenhaMuitoCurta])"
proof -
  have short: "length (password page_short_password) < 6"
    by (simp add: page_short_password_def js_def)
  have ne: "\<not> (email page_short_password = [] \<or> password page_short_password = []
              \<or> fullName page_short_password = [])"
    by (simp add: page_short_password_def js_def)
  from short have pre: "fullName page_short_password = [] \<or> email page_short_password = []
      \<or> password page_short_password = [] \<or> length (password page_short_password) < 6"
    by blast
  have "snd (handleSignUp page_short_password (js ''http://h'') (signUp_data True))
          \<noteq> [preventDefault, toast destructive CamposObrigatorios]"
    using ne short by (simp add: handleSignUp_short)
  with handleSignUp_rejects_invalid_form [OF pre, of "js ''http://h''" "signUp_data True"] short
  show ?thesis by (metis prod.collapse)
qed

text \<open>
  C10. The filtered list holds exactly the activities of the given list that match both
  filters (a filter set to "all" matches everything), in their order and multiplicity; with both
  filters at "all" it is the given list. Filtering computes a new list from the given list and
  the two selections; the given list itself is not changed.
\<close>

theorem filteredAtividades_exact:
  "(\<forall>a. a \<in> set (filteredAtividades atividades filterTurma filterStatus) \<longleftrightarrow>
        a \<in> set atividades
        \<and> (Atividade_turma_id a = filterTurma \<or> filterTurma = js ''all'')
        \<and> (Atividade_status a = filterStatus \<or> filterStatus = js ''all''))
   \<and> (\<forall>a. count_list (filteredAtividades atividades filterTurma filterStatus) a =
        (if (Atividade_turma_id a = filterTurma \<or> filterTurma = js ''all'')
            \<and> (Atividade_status a = filterStatus \<or> filterStatus = js ''all'')
         then count_list atividades a else 0))
   \<and> subseq (filteredAtividades atividades filterTurma filterStatus) atividades
   \<and> filteredAtividades atividades (js ''all'') (js ''all'') = atividades"
proof -
  let ?P = "\<lambda>a. (Atividade_turma_id a = filterTurma \<or> filterTurma = js ''all'')
                \<and> (Atividade_status a = filterStatus \<or> filterStatus = js ''all'')"
  have eq: "filteredAtividades atividades filterTurma filterStatus = filter ?P atividades"
    unfolding filteredAtividades_def Let_def by (rule filter_cong) auto
  have mem: "a \<in> set (filter ?P atividades) \<longleftrightarrow> a \<in> set atividades \<and> ?P a" for a
    by simp
  have cnt: "count_list (filter ?P xs) a = (if ?P a then count_list xs a else 0)" for xs a
    by (induction xs) auto
  have sub: "subseq (filter ?P atividades) atividades"
    by (rule subseq_filter_left)
  have all: "filteredAtividades atividades (js ''all'') (js ''all'') = atividades"
    by (simp add: filteredAtividades_def)
  show ?thesis
    unfolding eq using mem cnt sub all [unfolded filteredAtividades_def] 
    by (intro conjI allI) (simp_all only: filteredAtividades_def [symmetric])
qed

theorem filteredAtividades_exact_witness:
  "filteredAtividades [example_Atividade_1, example_Atividade_2] (js ''all'') (js ''all'')
     = [example_Atividade_1, example_Atividade_2]
   \<and> example_Atividade_1
       \<in> set (filteredAtividades [example_Atividade_1, example_Atividade_2] (js ''t1'') (js ''all''))
   \<and> example_Atividade_2
       \<notin> set (filteredAtividades [example_Atividade_1, example_Atividade_2] (js ''t1'') (js ''all''))
   \<and> example_Atividade_1
       \<notin> set (filteredAtividades [example_Atividade_1, example_Atividade_2] (js ''all'') (js ''finalizada''))
   \<and> example_Atividade_2
       \<in> set (filteredAtividades [example_Atividade_1, example_Atividade_2] (js ''all'') (js ''finalizada''))"
proof -
  have fields: "Atividade_turma_id example_Atividade_1 = js ''t1''"
    "Atividade_turma_id example_Atividade_2 = js ''t2''"
    "Atividade_status example_Atividade_1 = js ''ativa''"
    "Atividade_status example_Atividade_2 = js ''finalizada''"
    by (simp_all add: example_Atividade_1_def example_Atividade_2_def)
  have ne: "js ''t2'' \<noteq> js ''t1''" "js ''t1'' \<noteq> js ''all''" "js ''t2'' \<noteq> js ''all''"
    "js ''ativa'' \<noteq> js ''finalizada''" "js ''finalizada'' \<noteq> js ''all''"
    by (simp_all add: js_def)
  note inst = filteredAtividades_exact [of "[example_Atividade_1, example_Atividade_2]"]
  from inst [of "js ''all''" "js ''all''"] inst [of "js ''t1''" "js ''all''"]
    inst [of "js ''all''" "js ''finalizada''"]
  show ?thesis
    by (simp add: fields ne)
qed

section \<open>Properties of the database\<close>

subsection \<open>The example database is reachable\<close>

lemmas example_defs = example_user_1_def example_user_2_def example_profile_1_def
  example_profile_2_def example_turma_def example_atividade_def example_db_1_def
  example_db_2_def example_db_3_def example_db_def

lemmas policy_defs = turmas_select_policy_def turmas_update_policy_def turmas_delete_policy_def
  turmas_insert_policy_def turmas_policy_def own_profiles_def profiles_select_policy_def
  profiles_policy_def

lemma example_step_1: "create_user empty_database 100 10 example_user_1 = Inr example_db_1"
  by (simp add: create_user_def handle_new_user_def insert_profiles_row_def json_get_text_def
      empty_database_def example_defs)

lemma example_step_2: "create_user example_db_1 101 20 example_user_2 = Inr example_db_2"
  by (simp add: create_user_def handle_new_user_def insert_profiles_row_def json_get_text_def
      example_defs)

lemma example_step_3:
  "insert_turmas example_db_2 (Some 1) 102 30 example_turma_insert = Inr example_db_3"
  by (simp add: insert_turmas_def turmas_insert_policy_def turmas_policy_def own_profiles_def
      profiles_select_policy_def profiles_policy_def turmas_periodo_check_def
      example_turma_insert_def example_defs)

lemma example_step_4:
  "insert_atividades example_db_3 (Some 1) 103 40 example_atividade_insert = Inr example_db"
  by (simp add: insert_atividades_def atividades_insert_policy_def atividades_policy_def
      own_turmas_def turmas_select_policy_def turmas_policy_def own_profiles_def
      profiles_select_policy_def profiles_policy_def atividades_tipo_check_def
      atividades_status_check_def example_atividade_insert_def example_defs)

lemma example_db_reachable: "reachable example_db"
  using reachable.insert_atividades [OF reachable.insert_turmas [OF reachable.create_user
    [OF reachable.create_user [OF reachable.init example_step_1] example_step_2]
    example_step_3] example_step_4] .

subsection \<open>Lists and keys\<close>

lemma distinct_map_eq:
  "distinct (map f xs) \<Longrightarrow> x \<in> set xs \<Longrightarrow> y \<in> set xs \<Longrightarrow> f x = f y \<Longrightarrow> x = y"
  by (meson distinct_map inj_onD)

lemma filter_key_single:
  "distinct (map f xs) \<Longrightarrow> x \<in> set xs \<Longrightarrow> filter (\<lambda>r. f r = f x) xs = [x]"
proof (induction xs)
  case Nil then show ?case by simp
next
  case (Cons a xs)
  show ?case
  proof (cases "a = x")
    case True
    with Cons.prems have "f x \<notin> f ` set xs" by simp
    then have "\<forall>r \<in> set xs. f r \<noteq> f x" by (metis imageI)
    then have "filter (\<lambda>r. f r = f x) xs = []" by (simp add: filter_empty_conv)
    with True show ?thesis by simp
  next
    case False
    with Cons.prems have "x \<in> set xs" "f a \<noteq> f x" by auto
    with Cons show ?thesis by simp
  qed
qed

lemma map_no_target: "filter P xs = [] \<Longrightarrow> map (\<lambda>r. if P r then g r else r) xs = xs"
  by (induction xs) (auto split: if_splits)

lemma filter_not_no_target: "filter P xs = [] \<Longrightarrow> filter (\<lambda>r. \<not> P r) xs = xs"
  by (induction xs) (auto split: if_splits)

lemma filter_False_all: "filter (\<lambda>r. False) xs = []" "filter (\<lambda>r. \<not> False) xs = xs"
  "map (\<lambda>r. if False then g r else r) xs = xs"
  by simp_all

lemma filter_not_in_filter: "filter (\<lambda>x. x \<notin> set (filter D xs)) xs = filter (\<lambda>x. \<not> D x) xs"
  by (rule filter_cong) auto

lemma key_not_deleted: "x \<in> set xs \<Longrightarrow> k x \<notin> set (map k (filter D xs)) \<Longrightarrow> \<not> D x"
  by force

lemma distinct_count_le_1: "distinct xs \<Longrightarrow> count_list xs x \<le> 1"
  by (induction xs) auto

lemma count_le_1_distinct: "(\<And>y. count_list ys y \<le> 1) \<Longrightarrow> distinct ys"
proof (induction ys)
  case Nil
  show ?case by simp
next
  case (Cons a ys)
  have "count_list ys y \<le> 1" for y
    using Cons.prems [of y] by (simp split: if_splits)
  then have "distinct ys" by (rule Cons.IH)
  moreover have "a \<notin> set ys"
    using Cons.prems [of a] by (simp add: count_list_0_iff)
  ultimately show ?case by simp
qed

lemma count_list_untargeted:
  assumes "\<forall>r \<in> set xs. T r \<longrightarrow> k (g r) \<noteq> y"
  shows "count_list (map (\<lambda>r. k (if T r then g r else r)) xs) y
         = count_list (map k (filter (\<lambda>r. \<not> T r) xs)) y"
  using assms by (induction xs) auto

lemma count_list_map_filter_le:
  "count_list (map k (filter P xs)) y \<le> count_list (map k xs) y"
  by (induction xs) auto

lemma distinct_after_update:
  assumes d: "distinct (map k xs)"
    and c: "\<forall>r \<in> set xs. T r \<longrightarrow>
              \<not> 1 < count_list (map k (map (\<lambda>r. if T r then g r else r) xs)) (k (g r))"
  shows "distinct (map k (map (\<lambda>r. if T r then g r else r) xs))"
proof (rule count_le_1_distinct)
  fix y
  show "count_list (map k (map (\<lambda>r. if T r then g r else r) xs)) y \<le> 1"
  proof (cases "\<exists>r \<in> set xs. T r \<and> k (g r) = y")
    case True
    with c show ?thesis by force
  next
    case False
    then have "count_list (map (\<lambda>r. k (if T r then g r else r)) xs) y
         = count_list (map k (filter (\<lambda>r. \<not> T r) xs)) y"
      by (intro count_list_untargeted) blast
    also have "\<dots> \<le> count_list (map k xs) y" by (rule count_list_map_filter_le)
    also have "\<dots> \<le> 1" by (rule distinct_count_le_1 [OF d])
    finally show ?thesis by (simp add: comp_def)
  qed
qed

subsection \<open>What a successful statement has done\<close>

lemma cascade_atividades_Nil: "cascade_atividades [] db = db"
  by (simp add: cascade_atividades_def)

lemma cascade_turmas_Nil: "cascade_turmas [] db = db"
  by (simp add: cascade_turmas_def cascade_atividades_def)

lemma cascade_atividades_simps:
  "auth_users (cascade_atividades ts db) = auth_users db"
  "public_profiles (cascade_atividades ts db) = public_profiles db"
  "public_turmas (cascade_atividades ts db) = public_turmas db"
  "public_atividades (cascade_atividades ts db)
     = filter (\<lambda>a. atividades_turma_id a \<notin> set ts) (public_atividades db)"
  by (simp_all add: cascade_atividades_def)

lemma cascade_turmas_simps:
  "auth_users (cascade_turmas ps db) = auth_users db"
  "public_profiles (cascade_turmas ps db) = public_profiles db"
  "public_turmas (cascade_turmas ps db)
     = filter (\<lambda>t. turmas_professor_id t \<notin> set ps) (public_turmas db)"
  "public_atividades (cascade_turmas ps db)
     = filter (\<lambda>a. atividades_turma_id a \<notin>
          set (map turmas_id (filter (\<lambda>t. turmas_professor_id t \<in> set ps) (public_turmas db))))
        (public_atividades db)"
  by (simp_all add: cascade_turmas_def cascade_atividades_simps)

lemma cascade_profiles_simps:
  "auth_users (cascade_profiles us db) = auth_users db"
  "public_profiles (cascade_profiles us db)
     = filter (\<lambda>p. profiles_user_id p \<notin> set us) (public_profiles db)"
  "public_turmas (cascade_profiles us db)
     = filter (\<lambda>t. turmas_professor_id t \<notin>
          set (map profiles_id (filter (\<lambda>p. profiles_user_id p \<in> set us) (public_profiles db))))
        (public_turmas db)"
  "public_atividades (cascade_profiles us db)
     = filter (\<lambda>a. atividades_turma_id a \<notin>
          set (map turmas_id (filter (\<lambda>t. turmas_professor_id t \<in>
             set (map profiles_id (filter (\<lambda>p. profiles_user_id p \<in> set us) (public_profiles db))))
             (public_turmas db))))
        (public_atividades db)"
  by (simp_all add: cascade_profiles_def cascade_turmas_simps)

lemma delete_user_simps:
  "auth_users (delete_user db u) = filter (\<lambda>r. users_id r \<noteq> u) (auth_users db)"
  "public_profiles (delete_user db u) = filter (\<lambda>p. profiles_user_id p \<noteq> u) (public_profiles db)"
  "public_turmas (delete_user db u)
     = filter (\<lambda>t. turmas_professor_id t \<notin>
          set (map profiles_id (filter (\<lambda>p. profiles_user_id p = u) (public_profiles db))))
        (public_turmas db)"
  "public_atividades (delete_user db u)
     = filter (\<lambda>a. atividades_turma_id a \<notin>
          set (map turmas_id (filter (\<lambda>t. turmas_professor_id t \<in>
             set (map profiles_id (filter (\<lambda>p. profiles_user_id p = u) (public_profiles db))))
             (public_turmas db))))
        (public_atividades db)"
  by (simp_all add: delete_user_def cascade_profiles_simps)

lemma delete_profiles_nothing: "delete_profiles db uid wher = (db, 0)"
  by (simp add: delete_profiles_def profiles_delete_policy_def cascade_turmas_Nil)

lemma delete_turmas_simps:
  "auth_users (fst (delete_turmas db uid wher)) = auth_users db"
  "public_profiles (fst (delete_turmas db uid wher)) = public_profiles db"
  "public_turmas (fst (delete_turmas db uid wher))
     = filter (\<lambda>r. \<not> (turmas_select_policy db uid r \<and> turmas_delete_policy db uid r \<and> wher r))
         (public_turmas db)"
  "public_atividades (fst (delete_turmas db uid wher))
     = filter (\<lambda>a. atividades_turma_id a \<notin> set (map turmas_id
          (filter (\<lambda>r. turmas_select_policy db uid r \<and> turmas_delete_policy db uid r \<and> wher r)
             (public_turmas db))))
        (public_atividades db)"
  by (simp_all add: delete_turmas_def Let_def cascade_atividades_simps)

lemma delete_atividades_simps:
  "auth_users (fst (delete_atividades db uid wher)) = auth_users db"
  "public_profiles (fst (delete_atividades db uid wher)) = public_profiles db"
  "public_turmas (fst (delete_atividades db uid wher)) = public_turmas db"
  "public_atividades (fst (delete_atividades db uid wher))
     = filter (\<lambda>r. \<not> (atividades_select_policy db uid r \<and> atividades_delete_policy db uid r \<and> wher r))
         (public_atividades db)"
  by (simp_all add: delete_atividades_def Let_def)

lemma update_turmas_updated_at_keeps:
  "turmas_id (update_turmas_updated_at now r) = turmas_id r"
  "turmas_professor_id (update_turmas_updated_at now r) = turmas_professor_id r"
  "turmas_periodo (update_turmas_updated_at now r) = turmas_periodo r"
  by (simp_all add: update_turmas_updated_at_def)

lemma update_atividades_updated_at_keeps:
  "atividades_id (update_atividades_updated_at now r) = atividades_id r"
  "atividades_turma_id (update_atividades_updated_at now r) = atividades_turma_id r"
  "atividades_tipo (update_atividades_updated_at now r) = atividades_tipo r"
  "atividades_status (update_atividades_updated_at now r) = atividades_status r"
  by (simp_all add: update_atividades_updated_at_def)

lemma create_user_Inr:
  assumes "create_user db now fresh NEW = Inr db'"
  shows "users_id NEW \<notin> set (map users_id (auth_users db))"
    and "users_id NEW \<notin> set (map profiles_user_id (public_profiles db))"
    and "fresh \<notin> set (map profiles_id (public_profiles db))"
    and "\<exists>e. users_email NEW = Some e \<and>
          db' = db\<lparr>auth_users := auth_users db @ [NEW],
                    public_profiles := public_profiles db @
                      [\<lparr>profiles_id = fresh, profiles_user_id = users_id NEW,
                        profiles_nome = COALESCE (json_get_text (users_raw_user_meta_data NEW) ''full_name'') ''Professor'',
                        profiles_email = e, profiles_escola = None,
                        profiles_created_at = now, profiles_updated_at = now\<rparr>]\<rparr>"
  using assms
  by (auto simp: create_user_def handle_new_user_def insert_profiles_row_def Let_def
      split: if_splits option.splits)

lemma insert_profiles_Inr:
  assumes "insert_profiles db uid now fresh r = Inr db'"
  shows "\<exists>p. db' = db\<lparr>public_profiles := public_profiles db @ [p]\<rparr>
             \<and> uid = Some (profiles_user_id p)
             \<and> profiles_id p \<notin> set (map profiles_id (public_profiles db))
             \<and> profiles_user_id p \<notin> set (map profiles_user_id (public_profiles db))
             \<and> profiles_user_id p \<in> set (map users_id (auth_users db))"
  using assms
  by (auto simp: insert_profiles_def insert_profiles_row_def profiles_insert_policy_def
      profiles_policy_def Let_def split: if_splits option.splits)

lemma insert_turmas_Inr:
  assumes "insert_turmas db uid now fresh r = Inr db'"
  shows "\<exists>t. db' = db\<lparr>public_turmas := public_turmas db @ [t]\<rparr>
             \<and> turmas_policy db uid (Some (turmas_professor_id t))
             \<and> turmas_periodo_check (turmas_periodo t)
             \<and> turmas_id t \<notin> set (map turmas_id (public_turmas db))
             \<and> turmas_professor_id t \<in> set (map profiles_id (public_profiles db))"
  using assms
  by (auto simp: insert_turmas_def turmas_insert_policy_def Let_def split: if_splits)

lemma insert_atividades_Inr:
  assumes "insert_atividades db uid now fresh r = Inr db'"
  shows "\<exists>a. db' = db\<lparr>public_atividades := public_atividades db @ [a]\<rparr>
             \<and> atividades_policy db uid (Some (atividades_turma_id a))
             \<and> atividades_tipo a = column None (new_atividades_tipo r)
             \<and> atividades_status a = column (Some ''ativa'') (new_atividades_status r)
             \<and> atividades_tipo_check (atividades_tipo a)
             \<and> atividades_status_check (atividades_status a)
             \<and> atividades_id a \<notin> set (map atividades_id (public_atividades db))
             \<and> atividades_turma_id a \<in> set (map turmas_id (public_turmas db))"
  using assms
  by (auto simp: insert_atividades_def atividades_insert_policy_def Let_def split: if_splits)

lemma update_profiles_Inr:
  assumes "update_profiles db uid now wher set_clause = Inr (db', n)"
  defines "target \<equiv> \<lambda>r. profiles_select_policy uid r \<and> profiles_update_policy uid r \<and> wher r"
  defines "new \<equiv> \<lambda>r. update_profiles_updated_at now (set_clause r)"
  shows "db' = db\<lparr>public_profiles := map (\<lambda>r. if target r then new r else r) (public_profiles db)\<rparr>"
    and "n = length (filter target (public_profiles db))"
    and "\<forall>r \<in> set (public_profiles db). target r \<longrightarrow> profiles_update_policy uid (new r)"
  using assms(1) unfolding target_def new_def
  by (auto simp: update_profiles_def Let_def split: if_splits)

lemma update_turmas_Inr:
  assumes "update_turmas db uid now wher set_clause = Inr (db', n)"
  defines "target \<equiv> \<lambda>r. turmas_select_policy db uid r \<and> turmas_update_policy db uid r \<and> wher r"
  defines "new \<equiv> \<lambda>r. update_turmas_updated_at now (set_clause r)"
  defines "rows \<equiv> map (\<lambda>r. if target r then new r else r) (public_turmas db)"
  shows "db' = db\<lparr>public_turmas := rows\<rparr>"
    and "n = length (filter target (public_turmas db))"
    and "\<forall>r \<in> set (public_turmas db). target r \<longrightarrow> turmas_update_policy db uid (new r)"
    and "\<forall>r \<in> set (public_turmas db). target r \<longrightarrow> turmas_id (new r) \<noteq> turmas_id r
           \<longrightarrow> turmas_id r \<in> set (map atividades_turma_id (public_atividades db))
           \<longrightarrow> turmas_id r \<in> set (map turmas_id rows)"
  using assms(1) unfolding target_def new_def rows_def
  by (auto simp: update_turmas_def Let_def split: if_splits)

lemma update_atividades_Inr:
  assumes "update_atividades db uid now wher set_clause = Inr (db', n)"
  defines "target \<equiv> \<lambda>r. atividades_select_policy db uid r \<and> atividades_update_policy db uid r \<and> wher r"
  defines "new \<equiv> \<lambda>r. update_atividades_updated_at now (set_clause r)"
  shows "db' = db\<lparr>public_atividades := map (\<lambda>r. if target r then new r else r) (public_atividades db)\<rparr>"
    and "n = length (filter target (public_atividades db))"
    and "\<forall>r \<in> set (public_atividades db). target r \<longrightarrow> atividades_update_policy db uid (new r)"
    and "\<forall>r \<in> set (public_atividades db). target r
           \<longrightarrow> atividades_turma_id (new r) \<noteq> atividades_turma_id r
           \<longrightarrow> atividades_turma_id (new r) \<in> set (map turmas_id (public_turmas db))"
  using assms(1) unfolding target_def new_def
  by (auto simp: update_atividades_def Let_def split: if_splits)

lemma update_profiles_own:
  assumes "update_profiles db uid now wher set_clause = Inr (db', n)"
  shows "public_profiles db' =
           map (\<lambda>r. if uid = Some (profiles_user_id r) \<and> wher r
                    then update_profiles_updated_at now (set_clause r) else r) (public_profiles db)"
    and "map profiles_user_id (public_profiles db') = map profiles_user_id (public_profiles db)"
proof -
  note shape = update_profiles_Inr [OF assms]
  show "public_profiles db' =
           map (\<lambda>r. if uid = Some (profiles_user_id r) \<and> wher r
                    then update_profiles_updated_at now (set_clause r) else r) (public_profiles db)"
    unfolding shape(1) by (simp add: profiles_select_policy_def profiles_update_policy_def profiles_policy_def)
  show "map profiles_user_id (public_profiles db') = map profiles_user_id (public_profiles db)"
    unfolding shape(1) using shape(3)
    by (auto simp: profiles_update_policy_def profiles_policy_def)
qed

lemma update_profiles_unique:
  assumes "update_profiles db uid now wher set_clause = Inr (db', n)"
  shows "\<forall>r \<in> set (public_profiles db).
           profiles_select_policy uid r \<and> profiles_update_policy uid r \<and> wher r \<longrightarrow>
           \<not> 1 < count_list (map profiles_id (map (\<lambda>r. if profiles_select_policy uid r
                \<and> profiles_update_policy uid r \<and> wher r
                then update_profiles_updated_at now (set_clause r) else r) (public_profiles db)))
                (profiles_id (update_profiles_updated_at now (set_clause r)))"
  using assms by (auto simp: update_profiles_def Let_def split: if_splits)

lemma update_turmas_unique:
  assumes "update_turmas db uid now wher set_clause = Inr (db', n)"
  shows "\<forall>r \<in> set (public_turmas db).
           turmas_select_policy db uid r \<and> turmas_update_policy db uid r \<and> wher r \<longrightarrow>
           \<not> 1 < count_list (map turmas_id (map (\<lambda>r. if turmas_select_policy db uid r
                \<and> turmas_update_policy db uid r \<and> wher r
                then update_turmas_updated_at now (set_clause r) else r) (public_turmas db)))
                (turmas_id (update_turmas_updated_at now (set_clause r)))"
  using assms by (auto simp: update_turmas_def Let_def split: if_splits)

lemma update_atividades_unique:
  assumes "update_atividades db uid now wher set_clause = Inr (db', n)"
  shows "\<forall>r \<in> set (public_atividades db).
           atividades_select_policy db uid r \<and> atividades_update_policy db uid r \<and> wher r \<longrightarrow>
           \<not> 1 < count_list (map atividades_id (map (\<lambda>r. if atividades_select_policy db uid r
                \<and> atividades_update_policy db uid r \<and> wher r
                then update_atividades_updated_at now (set_clause r) else r) (public_atividades db)))
                (atividades_id (update_atividades_updated_at now (set_clause r)))"
  using assms by (auto simp: update_atividades_def Let_def split: if_splits)

lemma update_profiles_referenced:
  assumes "update_profiles db uid now wher set_clause = Inr (db', n)"
  shows "\<forall>r \<in> set (public_profiles db).
           profiles_select_policy uid r \<and> profiles_update_policy uid r \<and> wher r
           \<longrightarrow> profiles_id (update_profiles_updated_at now (set_clause r)) \<noteq> profiles_id r
           \<longrightarrow> profiles_id r \<in> set (map turmas_professor_id (public_turmas db))
           \<longrightarrow> profiles_id r \<in> set (map profiles_id
                 (map (\<lambda>r. if profiles_select_policy uid r \<and> profiles_update_policy uid r \<and> wher r
                           then update_profiles_updated_at now (set_clause r) else r)
                    (public_profiles db)))"
  using assms by (auto simp: update_profiles_def Let_def split: if_splits)

lemma update_turmas_references:
  assumes "update_turmas db uid now wher set_clause = Inr (db', n)"
  shows "\<forall>r \<in> set (public_turmas db).
           turmas_select_policy db uid r \<and> turmas_update_policy db uid r \<and> wher r
           \<longrightarrow> turmas_professor_id (update_turmas_updated_at now (set_clause r)) \<noteq> turmas_professor_id r
           \<longrightarrow> turmas_professor_id (update_turmas_updated_at now (set_clause r))
                 \<in> set (map profiles_id (public_profiles db))"
  using assms by (auto simp: update_turmas_def Let_def split: if_splits)

subsection \<open>Invariants of the reachable databases\<close>

lemma identities_have_profiles_reachable:
  "reachable db \<Longrightarrow> identities_have_profiles db"
proof (induction rule: reachable.induct)
  case init
  show ?case by (simp add: identities_have_profiles_def empty_database_def)
next
  case (create_user db now fresh NEW db')
  from create_user_Inr(2,4) [OF create_user.hyps(2)] create_user.IH
  show ?case by (auto simp: identities_have_profiles_def)
next
  case (delete_user db u)
  then show ?case
    by (auto simp: identities_have_profiles_def delete_user_simps distinct_map_filter)
next
  case (insert_profiles db uid now fresh pr db')
  from insert_profiles_Inr [OF insert_profiles.hyps(2)] insert_profiles.IH
  show ?case by (auto simp: identities_have_profiles_def)
next
  case (update_profiles db uid now pw ps db' n)
  note shape = update_profiles_Inr [OF update_profiles.hyps(2)]
  have eq: "map profiles_user_id (public_profiles db') = map profiles_user_id (public_profiles db)"
    unfolding shape(1) using shape(3)
    by (auto simp: profiles_update_policy_def profiles_policy_def)
  have au: "auth_users db' = auth_users db"
    by (simp add: shape(1))
  from update_profiles.IH show ?case
    unfolding identities_have_profiles_def eq au .
next
  case (delete_profiles db uid pw)
  then show ?case by (simp add: delete_profiles_nothing)
next
  case (insert_turmas db uid now fresh tr db')
  from insert_turmas_Inr [OF insert_turmas.hyps(2)] insert_turmas.IH
  show ?case by (auto simp: identities_have_profiles_def)
next
  case (update_turmas db uid now tw ts db' n)
  from update_turmas_Inr(1) [OF update_turmas.hyps(2)] update_turmas.IH
  show ?case by (simp add: identities_have_profiles_def)
next
  case (delete_turmas db uid tw)
  then show ?case by (simp add: identities_have_profiles_def delete_turmas_simps)
next
  case (insert_atividades db uid now fresh ar db')
  from insert_atividades_Inr [OF insert_atividades.hyps(2)] insert_atividades.IH
  show ?case by (auto simp: identities_have_profiles_def)
next
  case (update_atividades db uid now aw as db' n)
  from update_atividades_Inr(1) [OF update_atividades.hyps(2)] update_atividades.IH
  show ?case by (simp add: identities_have_profiles_def)
next
  case (delete_atividades db uid aw)
  then show ?case by (simp add: identities_have_profiles_def delete_atividades_simps)
qed

lemma one_profile_of_identity:
  assumes "identities_have_profiles db" and "u \<in> set (auth_users db)"
  shows "length (filter (\<lambda>p. profiles_user_id p = users_id u) (public_profiles db)) = 1"
proof -
  from assms obtain p where p: "p \<in> set (public_profiles db)" "profiles_user_id p = users_id u"
    and d: "distinct (map profiles_user_id (public_profiles db))"
    by (auto simp: identities_have_profiles_def)
  from filter_key_single [OF d p(1)] p(2) show ?thesis by simp
qed

lemma turmas_have_profiles_reachable:
  "reachable db \<Longrightarrow> turmas_have_profiles db"
proof (induction rule: reachable.induct)
  case init
  show ?case by (simp add: turmas_have_profiles_def empty_database_def)
next
  case (create_user db now fresh NEW db')
  from create_user_Inr(4) [OF create_user.hyps(2)] create_user.IH
  show ?case by (auto simp: turmas_have_profiles_def)
next
  case (delete_user db u)
  show ?case
    unfolding turmas_have_profiles_def
  proof
    fix t assume t: "t \<in> set (public_turmas (delete_user db u))"
    then have "t \<in> set (public_turmas db)" by (simp add: delete_user_simps)
    with delete_user.IH obtain p where p: "p \<in> set (public_profiles db)"
      "profiles_id p = turmas_professor_id t"
      by (auto simp: turmas_have_profiles_def)
    moreover from t have "turmas_professor_id t \<notin> set (map profiles_id
        (filter (\<lambda>p. profiles_user_id p = u) (public_profiles db)))"
      by (simp add: delete_user_simps)
    ultimately have "p \<in> set (public_profiles (delete_user db u))"
      using key_not_deleted [of p "public_profiles db" profiles_id "\<lambda>p. profiles_user_id p = u"]
      by (simp add: delete_user_simps)
    with p(2) show "turmas_professor_id t \<in> set (map profiles_id (public_profiles (delete_user db u)))"
      by force
  qed
next
  case (insert_profiles db uid now fresh pr db')
  from insert_profiles_Inr [OF insert_profiles.hyps(2)] insert_profiles.IH
  show ?case by (auto simp: turmas_have_profiles_def)
next
  case (update_profiles db uid now pw ps db' n)
  note shape = update_profiles_Inr [OF update_profiles.hyps(2)]
  note ref = update_profiles_referenced [OF update_profiles.hyps(2)]
  let ?target = "\<lambda>r. profiles_select_policy uid r \<and> profiles_update_policy uid r \<and> pw r"
  let ?g = "\<lambda>r. if ?target r then update_profiles_updated_at now (ps r) else r"
  show ?case
    unfolding turmas_have_profiles_def
  proof
    fix t assume "t \<in> set (public_turmas db')"
    then have t: "t \<in> set (public_turmas db)" by (simp add: shape(1))
    with update_profiles.IH obtain p where p: "p \<in> set (public_profiles db)"
      "profiles_id p = turmas_professor_id t"
      by (auto simp: turmas_have_profiles_def)
    have used: "profiles_id p \<in> set (map turmas_professor_id (public_turmas db))"
      using t p(2) by force
    have "profiles_id p \<in> set (map profiles_id (public_profiles db'))"
    proof (cases "?target p \<and> profiles_id (update_profiles_updated_at now (ps p)) \<noteq> profiles_id p")
      case True
      with ref p(1) used show ?thesis unfolding shape(1) by simp
    next
      case False
      then have "profiles_id (?g p) = profiles_id p" by auto
      with p(1) have "profiles_id p \<in> set (map profiles_id (map ?g (public_profiles db)))"
        by force
      then show ?thesis by (simp add: shape(1))
    qed
    then show "turmas_professor_id t \<in> set (map profiles_id (public_profiles db'))"
      by (simp add: p(2))
  qed
next
  case (delete_profiles db uid pw)
  then show ?case by (simp add: delete_profiles_nothing)
next
  case (insert_turmas db uid now fresh tr db')
  from insert_turmas_Inr [OF insert_turmas.hyps(2)] insert_turmas.IH
  show ?case by (auto simp: turmas_have_profiles_def)
next
  case (update_turmas db uid now tw ts db' n)
  note shape = update_turmas_Inr [OF update_turmas.hyps(2)]
  show ?case
    unfolding turmas_have_profiles_def shape(1)
    using update_turmas_references [OF update_turmas.hyps(2)] update_turmas.IH
    by (auto simp: turmas_have_profiles_def update_turmas_updated_at_keeps)
next
  case (delete_turmas db uid tw)
  then show ?case by (simp add: turmas_have_profiles_def delete_turmas_simps)
next
  case (insert_atividades db uid now fresh ar db')
  from insert_atividades_Inr [OF insert_atividades.hyps(2)] insert_atividades.IH
  show ?case by (auto simp: turmas_have_profiles_def)
next
  case (update_atividades db uid now aw as db' n)
  from update_atividades_Inr(1) [OF update_atividades.hyps(2)] update_atividades.IH
  show ?case by (simp add: turmas_have_profiles_def)
next
  case (delete_atividades db uid aw)
  then show ?case by (simp add: turmas_have_profiles_def delete_atividades_simps)
qed

lemma atividades_have_turmas_reachable:
  "reachable db \<Longrightarrow> atividades_have_turmas db"
proof (induction rule: reachable.induct)
  case init
  show ?case by (simp add: atividades_have_turmas_def empty_database_def)
next
  case (create_user db now fresh NEW db')
  from create_user_Inr(4) [OF create_user.hyps(2)] create_user.IH
  show ?case by (auto simp: atividades_have_turmas_def)
next
  case (delete_user db u)
  show ?case
    unfolding atividades_have_turmas_def
  proof
    fix a assume a: "a \<in> set (public_atividades (delete_user db u))"
    then have "a \<in> set (public_atividades db)" by (simp add: delete_user_simps)
    with delete_user.IH obtain t where t: "t \<in> set (public_turmas db)"
      "turmas_id t = atividades_turma_id a"
      by (auto simp: atividades_have_turmas_def)
    moreover from a have "atividades_turma_id a \<notin> set (map turmas_id
        (filter (\<lambda>t. turmas_professor_id t \<in> set (map profiles_id
           (filter (\<lambda>p. profiles_user_id p = u) (public_profiles db)))) (public_turmas db)))"
      by (simp add: delete_user_simps)
    ultimately have "t \<in> set (public_turmas (delete_user db u))"
      using key_not_deleted [of t "public_turmas db" turmas_id
          "\<lambda>t. turmas_professor_id t \<in> set (map profiles_id
             (filter (\<lambda>p. profiles_user_id p = u) (public_profiles db)))"]
      by (simp add: delete_user_simps)
    with t(2) show "atividades_turma_id a \<in> set (map turmas_id (public_turmas (delete_user db u)))"
      by force
  qed
next
  case (insert_profiles db uid now fresh pr db')
  from insert_profiles_Inr [OF insert_profiles.hyps(2)] insert_profiles.IH
  show ?case by (auto simp: atividades_have_turmas_def)
next
  case (update_profiles db uid now pw ps db' n)
  from update_profiles_Inr(1) [OF update_profiles.hyps(2)] update_profiles.IH
  show ?case by (simp add: atividades_have_turmas_def)
next
  case (delete_profiles db uid pw)
  then show ?case by (simp add: delete_profiles_nothing)
next
  case (insert_turmas db uid now fresh tr db')
  from insert_turmas_Inr [OF insert_turmas.hyps(2)] insert_turmas.IH
  show ?case by (auto simp: atividades_have_turmas_def)
next
  case (update_turmas db uid now tw ts db' n)
  note shape = update_turmas_Inr [OF update_turmas.hyps(2)]
  let ?target = "\<lambda>r. turmas_select_policy db uid r \<and> turmas_update_policy db uid r \<and> tw r"
  let ?g = "\<lambda>r. if ?target r then update_turmas_updated_at now (ts r) else r"
  show ?case
    unfolding atividades_have_turmas_def
  proof
    fix a assume "a \<in> set (public_atividades db')"
    then have a: "a \<in> set (public_atividades db)" by (simp add: shape(1))
    with update_turmas.IH obtain t where t: "t \<in> set (public_turmas db)"
      "turmas_id t = atividades_turma_id a"
      by (auto simp: atividades_have_turmas_def)
    have ref: "turmas_id t \<in> set (map atividades_turma_id (public_atividades db))"
      using a t(2) by force
    have "turmas_id t \<in> set (map turmas_id (map ?g (public_turmas db)))"
    proof (cases "?target t \<and> turmas_id (update_turmas_updated_at now (ts t)) \<noteq> turmas_id t")
      case True
      with shape(4) t(1) ref show ?thesis by blast
    next
      case False
      then have "turmas_id (?g t) = turmas_id t" by auto
      with t(1) show ?thesis by force
    qed
    then show "atividades_turma_id a \<in> set (map turmas_id (public_turmas db'))"
      by (simp add: shape(1) t(2))
  qed
next
  case (delete_turmas db uid tw)
  show ?case
    unfolding atividades_have_turmas_def
  proof
    fix a assume a: "a \<in> set (public_atividades (fst (delete_turmas db uid tw)))"
    then have "a \<in> set (public_atividades db)" by (simp add: delete_turmas_simps)
    with delete_turmas.IH obtain t where t: "t \<in> set (public_turmas db)"
      "turmas_id t = atividades_turma_id a"
      by (auto simp: atividades_have_turmas_def)
    moreover from a have "atividades_turma_id a \<notin> set (map turmas_id
        (filter (\<lambda>r. turmas_select_policy db uid r \<and> turmas_delete_policy db uid r \<and> tw r)
           (public_turmas db)))"
      by (simp add: delete_turmas_simps)
    ultimately have "t \<in> set (public_turmas (fst (delete_turmas db uid tw)))"
      using key_not_deleted [of t "public_turmas db" turmas_id
          "\<lambda>r. turmas_select_policy db uid r \<and> turmas_delete_policy db uid r \<and> tw r"]
      by (simp add: delete_turmas_simps)
    with t(2) show "atividades_turma_id a
        \<in> set (map turmas_id (public_turmas (fst (delete_turmas db uid tw))))"
      by force
  qed
next
  case (insert_atividades db uid now fresh ar db')
  from insert_atividades_Inr [OF insert_atividades.hyps(2)] insert_atividades.IH
  show ?case by (auto simp: atividades_have_turmas_def)
next
  case (update_atividades db uid now aw as db' n)
  note shape = update_atividades_Inr [OF update_atividades.hyps(2)]
  show ?case
    unfolding atividades_have_turmas_def shape(1)
    using shape(4) update_atividades.IH
    by (auto simp: atividades_have_turmas_def update_atividades_updated_at_keeps)
next
  case (delete_atividades db uid aw)
  then show ?case by (simp add: atividades_have_turmas_def delete_atividades_simps)
qed

lemma reachable_chain:
  assumes "reachable db" and "A \<in> set (public_atividades db)"
  shows "\<exists>C \<in> set (public_turmas db). \<exists>P \<in> set (public_profiles db).
           atividades_turma_id A = turmas_id C \<and> turmas_professor_id C = profiles_id P"
proof -
  from atividades_have_turmas_reachable [OF assms(1)] assms(2)
  obtain C where C: "C \<in> set (public_turmas db)" "atividades_turma_id A = turmas_id C"
    by (auto simp: atividades_have_turmas_def)
  from turmas_have_profiles_reachable [OF assms(1)] C(1)
  obtain P where "P \<in> set (public_profiles db)" "turmas_professor_id C = profiles_id P"
    by (auto simp: turmas_have_profiles_def)
  with C show ?thesis by blast
qed

lemma keys_hold_reachable: "reachable db \<Longrightarrow> keys_hold db"
proof (induction rule: reachable.induct)
  case init
  show ?case by (simp add: keys_hold_def empty_database_def)
next
  case (create_user db now fresh NEW db')
  from create_user_Inr [OF create_user.hyps(2)] create_user.IH
  show ?case by (auto simp: keys_hold_def)
next
  case (delete_user db u)
  then show ?case
    by (simp add: keys_hold_def delete_user_simps distinct_map_filter)
next
  case (insert_profiles db uid now fresh pr db')
  from insert_profiles_Inr [OF insert_profiles.hyps(2)] insert_profiles.IH
  show ?case by (auto simp: keys_hold_def)
next
  case (update_profiles db uid now pw ps db' n)
  note shape = update_profiles_Inr [OF update_profiles.hyps(2)]
  from update_profiles.IH have d: "distinct (map profiles_id (public_profiles db))"
    by (simp add: keys_hold_def)
  note ids = distinct_after_update [OF d update_profiles_unique [OF update_profiles.hyps(2)]]
  note users = update_profiles_own(2) [OF update_profiles.hyps(2)]
  from update_profiles.IH show ?case
    unfolding keys_hold_def users using ids by (simp add: shape(1))
next
  case (delete_profiles db uid pw)
  then show ?case by (simp add: delete_profiles_nothing)
next
  case (insert_turmas db uid now fresh tr db')
  from insert_turmas_Inr [OF insert_turmas.hyps(2)] insert_turmas.IH
  show ?case by (auto simp: keys_hold_def)
next
  case (update_turmas db uid now tw ts db' n)
  note shape = update_turmas_Inr [OF update_turmas.hyps(2)]
  from update_turmas.IH have d: "distinct (map turmas_id (public_turmas db))"
    by (simp add: keys_hold_def)
  note ids = distinct_after_update [OF d update_turmas_unique [OF update_turmas.hyps(2)]]
  from update_turmas.IH show ?case
    unfolding keys_hold_def using ids by (simp add: shape(1))
next
  case (delete_turmas db uid tw)
  then show ?case
    by (simp add: keys_hold_def delete_turmas_simps distinct_map_filter)
next
  case (insert_atividades db uid now fresh ar db')
  from insert_atividades_Inr [OF insert_atividades.hyps(2)] insert_atividades.IH
  show ?case by (auto simp: keys_hold_def)
next
  case (update_atividades db uid now aw as db' n)
  note shape = update_atividades_Inr [OF update_atividades.hyps(2)]
  from update_atividades.IH have d: "distinct (map atividades_id (public_atividades db))"
    by (simp add: keys_hold_def)
  note ids = distinct_after_update [OF d update_atividades_unique [OF update_atividades.hyps(2)]]
  from update_atividades.IH show ?case
    unfolding keys_hold_def using ids by (simp add: shape(1))
next
  case (delete_atividades db uid aw)
  then show ?case
    by (simp add: keys_hold_def delete_atividades_simps distinct_map_filter)
qed

subsection \<open>Policies and ownership chains\<close>

lemma own_profiles_iff:
  "i \<in> set (own_profiles db uid) \<longleftrightarrow>
     (\<exists>p \<in> set (public_profiles db). profiles_id p = i \<and> uid = Some (profiles_user_id p))"
  by (auto simp: own_profiles_def profiles_select_policy_def profiles_policy_def)

lemma own_turmas_iff:
  "i \<in> set (own_turmas db uid) \<longleftrightarrow>
     (\<exists>t \<in> set (public_turmas db). turmas_id t = i \<and>
        (\<exists>p \<in> set (public_profiles db). profiles_id p = turmas_professor_id t
            \<and> uid = Some (profiles_user_id p)))"
proof
  assume "i \<in> set (own_turmas db uid)"
  then show "\<exists>t \<in> set (public_turmas db). turmas_id t = i \<and>
        (\<exists>p \<in> set (public_profiles db). profiles_id p = turmas_professor_id t
            \<and> uid = Some (profiles_user_id p))"
    by (fastforce simp: own_turmas_def)
next
  assume "\<exists>t \<in> set (public_turmas db). turmas_id t = i \<and>
        (\<exists>p \<in> set (public_profiles db). profiles_id p = turmas_professor_id t
            \<and> uid = Some (profiles_user_id p))"
  then obtain t p where t: "t \<in> set (public_turmas db)" "turmas_id t = i"
    and p: "p \<in> set (public_profiles db)" "profiles_id p = turmas_professor_id t"
      "uid = Some (profiles_user_id p)"
    by blast
  from p have "turmas_select_policy db uid t"
    by (auto simp: turmas_select_policy_def turmas_policy_def own_profiles_iff)
  moreover from p have "profiles_select_policy uid p"
    by (simp add: profiles_select_policy_def profiles_policy_def)
  ultimately show "i \<in> set (own_turmas db uid)"
    using t p unfolding own_turmas_def by force
qed

lemma turmas_policy_owner:
  assumes "distinct (map profiles_id (public_profiles db))"
    and "P \<in> set (public_profiles db)" and "professor_id = profiles_id P"
  shows "turmas_policy db uid (Some professor_id) \<longleftrightarrow> uid = Some (profiles_user_id P)"
  using assms by (auto simp: turmas_policy_def own_profiles_iff dest: distinct_map_eq)

lemma atividades_policy_owner:
  assumes pk: "distinct (map profiles_id (public_profiles db))"
      and tk: "distinct (map turmas_id (public_turmas db))"
      and P: "P \<in> set (public_profiles db)" and C: "C \<in> set (public_turmas db)"
      and own: "turmas_professor_id C = profiles_id P"
  shows "atividades_policy db uid (Some (turmas_id C)) \<longleftrightarrow> uid = Some (profiles_user_id P)"
proof
  assume "atividades_policy db uid (Some (turmas_id C))"
  then obtain t p where t: "t \<in> set (public_turmas db)" "turmas_id t = turmas_id C"
    and p: "p \<in> set (public_profiles db)" "profiles_id p = turmas_professor_id t"
      "uid = Some (profiles_user_id p)"
    by (auto simp: atividades_policy_def own_turmas_iff)
  from t have "t = C" using distinct_map_eq [OF tk _ C] by blast
  with p own have "profiles_id p = profiles_id P" by simp
  with p(1) have "p = P" using distinct_map_eq [OF pk _ P] by blast
  with p(3) show "uid = Some (profiles_user_id P)" by simp
next
  assume "uid = Some (profiles_user_id P)"
  with P C own show "atividades_policy db uid (Some (turmas_id C))"
    unfolding atividades_policy_def option.case own_turmas_iff by (metis)
qed

lemma select_turmas_chain: "select_turmas db uid wher = filter wher (caller_turmas db uid)"
proof -
  have "turmas_select_policy db uid t \<longleftrightarrow>
        turmas_professor_id t \<in> set (map profiles_id (caller_profiles db uid))" for t
    by (force simp: turmas_select_policy_def turmas_policy_def own_profiles_iff caller_profiles_def)
  then show ?thesis by (simp add: select_turmas_def caller_turmas_def)
qed

lemma select_atividades_chain:
  "select_atividades db uid wher = filter wher (caller_atividades db uid)"
proof -
  have "atividades_select_policy db uid a \<longleftrightarrow>
        atividades_turma_id a \<in> set (map turmas_id (caller_turmas db uid))" for a
    by (force simp: atividades_select_policy_def atividades_policy_def own_turmas_iff
        caller_turmas_def caller_profiles_def)
  then show ?thesis by (simp add: select_atividades_def caller_atividades_def)
qed

subsection \<open>Classes\<close>

lemma update_turmas_no_target:
  assumes "filter (\<lambda>r. turmas_select_policy db uid r \<and> turmas_update_policy db uid r \<and> wher r)
             (public_turmas db) = []"
  shows "update_turmas db uid now wher set_clause = Inr (db, 0)"
  unfolding update_turmas_def Let_def assms map_no_target [OF assms]
  by simp

lemma delete_turmas_no_target:
  assumes "filter (\<lambda>r. turmas_select_policy db uid r \<and> turmas_delete_policy db uid r \<and> wher r)
             (public_turmas db) = []"
  shows "delete_turmas db uid wher = (db, 0)"
  unfolding delete_turmas_def Let_def assms filter_not_no_target [OF assms]
  by (simp add: cascade_atividades_Nil)

lemma update_turmas_target:
  assumes "\<forall>r \<in> set (public_turmas db).
             (turmas_select_policy db uid r \<and> turmas_update_policy db uid r \<and> wher r) = T r"
  shows "update_turmas db uid now wher set_clause =
     (let new = (\<lambda>r. update_turmas_updated_at now (set_clause r));
          old_rows = filter T (public_turmas db);
          rows = map (\<lambda>r. if T r then new r else r) (public_turmas db)
      in if \<exists>r \<in> set old_rows. \<not> turmas_update_policy db uid (new r)
           then Inl (RowSecurityViolation ''turmas'')
         else if \<exists>r \<in> set old_rows. \<not> turmas_periodo_check (turmas_periodo (new r))
           then Inl (ConstraintViolation (Check ''turmas_periodo_check''))
         else if \<exists>r \<in> set old_rows. 1 < count_list (map turmas_id rows) (turmas_id (new r))
           then Inl (ConstraintViolation (Unique ''turmas_pkey''))
         else if \<exists>r \<in> set old_rows. turmas_professor_id (new r) \<noteq> turmas_professor_id r
                  \<and> turmas_professor_id (new r) \<notin> set (map profiles_id (public_profiles db))
           then Inl (ConstraintViolation (ForeignKey ''turmas_professor_id_fkey''))
         else if \<exists>r \<in> set old_rows. turmas_id (new r) \<noteq> turmas_id r
                  \<and> turmas_id r \<notin> set (map turmas_id rows)
                  \<and> turmas_id r \<in> set (map atividades_turma_id (public_atividades db))
           then Inl (ConstraintViolation (ForeignKey ''atividades_turma_id_fkey''))
         else Inr (db\<lparr>public_turmas := rows\<rparr>, length old_rows))"
proof -
  have f: "filter (\<lambda>r. turmas_select_policy db uid r \<and> turmas_update_policy db uid r \<and> wher r)
             (public_turmas db) = filter T (public_turmas db)"
    using assms by (intro filter_cong) auto
  have m: "map (\<lambda>r. if turmas_select_policy db uid r \<and> turmas_update_policy db uid r \<and> wher r
                     then g r else r) (public_turmas db)
           = map (\<lambda>r. if T r then g r else r) (public_turmas db)" for g
    using assms by (intro map_cong) auto
  show ?thesis
    unfolding update_turmas_def Let_def f m ..
qed

lemma delete_turmas_target:
  assumes "\<forall>r \<in> set (public_turmas db).
             (turmas_select_policy db uid r \<and> turmas_delete_policy db uid r \<and> wher r) = T r"
  shows "delete_turmas db uid wher =
     (cascade_atividades (map turmas_id (filter T (public_turmas db)))
            (db\<lparr>public_turmas := filter (\<lambda>r. \<not> T r) (public_turmas db)\<rparr>),
          length (filter T (public_turmas db)))"
proof -
  have f: "filter (\<lambda>r. turmas_select_policy db uid r \<and> turmas_delete_policy db uid r \<and> wher r)
             (public_turmas db) = filter T (public_turmas db)"
    using assms by (intro filter_cong) auto
  have n: "filter (\<lambda>r. \<not> (turmas_select_policy db uid r \<and> turmas_delete_policy db uid r \<and> wher r))
             (public_turmas db) = filter (\<lambda>r. \<not> T r) (public_turmas db)"
    using assms by (intro filter_cong) auto
  show ?thesis
    unfolding delete_turmas_def Let_def f n ..
qed

lemma turmas_others:
  assumes pk: "distinct (map profiles_id (public_profiles db))"
      and tk: "distinct (map turmas_id (public_turmas db))"
      and P: "P \<in> set (public_profiles db)" and C: "C \<in> set (public_turmas db)"
      and own: "turmas_professor_id C = profiles_id P"
      and other: "uid \<noteq> Some (profiles_user_id P)"
  shows "C \<notin> set (select_turmas db uid wher)"
    and "select_turmas db uid (\<lambda>r. turmas_id r = turmas_id C) = []"
    and "update_turmas db uid now (\<lambda>r. turmas_id r = turmas_id C) set_clause = Inr (db, 0)"
    and "delete_turmas db uid (\<lambda>r. turmas_id r = turmas_id C) = (db, 0)"
proof -
  have no: "\<not> turmas_policy db uid (Some (turmas_professor_id C))"
    using turmas_policy_owner [OF pk P own] other by simp
  show "C \<notin> set (select_turmas db uid wher)"
    using no by (simp add: select_turmas_def turmas_select_policy_def)
  have single: "filter (\<lambda>r. turmas_id r = turmas_id C) (public_turmas db) = [C]"
    by (rule filter_key_single [OF tk C])
  have none: "filter (\<lambda>r. turmas_policy db uid (Some (turmas_professor_id r)) \<and> turmas_id r = turmas_id C)
                (public_turmas db) = []"
  proof -
    have "filter (\<lambda>r. turmas_policy db uid (Some (turmas_professor_id r)) \<and> turmas_id r = turmas_id C)
            (public_turmas db)
          = filter (\<lambda>r. turmas_policy db uid (Some (turmas_professor_id r)))
              (filter (\<lambda>r. turmas_id r = turmas_id C) (public_turmas db))"
      by (simp add: conj_commute)
    with single no show ?thesis by simp
  qed
  show "select_turmas db uid (\<lambda>r. turmas_id r = turmas_id C) = []"
    using none by (simp add: select_turmas_def turmas_select_policy_def conj_commute)
  show "update_turmas db uid now (\<lambda>r. turmas_id r = turmas_id C) set_clause = Inr (db, 0)"
    by (rule update_turmas_no_target)
       (use none in \<open>simp add: turmas_select_policy_def turmas_update_policy_def\<close>)
  show "delete_turmas db uid (\<lambda>r. turmas_id r = turmas_id C) = (db, 0)"
    by (rule delete_turmas_no_target)
       (use none in \<open>simp add: turmas_select_policy_def turmas_delete_policy_def\<close>)
qed

lemma turmas_owner:
  assumes pk: "distinct (map profiles_id (public_profiles db))"
      and tk: "distinct (map turmas_id (public_turmas db))"
      and P: "P \<in> set (public_profiles db)" and C: "C \<in> set (public_turmas db)"
      and own: "turmas_professor_id C = profiles_id P"
  shows "select_turmas db (Some (profiles_user_id P)) (\<lambda>r. turmas_id r = turmas_id C) = [C]"
    and "turmas_id (set_clause C) = turmas_id C
         \<Longrightarrow> turmas_professor_id (set_clause C) = turmas_professor_id C
         \<Longrightarrow> turmas_periodo_check (turmas_periodo (set_clause C))
         \<Longrightarrow> update_turmas db (Some (profiles_user_id P)) now (\<lambda>r. turmas_id r = turmas_id C) set_clause
             = Inr (db\<lparr>public_turmas :=
                        map (\<lambda>r. if turmas_id r = turmas_id C
                                 then update_turmas_updated_at now (set_clause r) else r)
                          (public_turmas db)\<rparr>, 1)"
    and "delete_turmas db (Some (profiles_user_id P)) (\<lambda>r. turmas_id r = turmas_id C)
             = (cascade_atividades [turmas_id C]
                  (db\<lparr>public_turmas := filter (\<lambda>r. turmas_id r \<noteq> turmas_id C) (public_turmas db)\<rparr>), 1)"
proof -
  let ?u = "Some (profiles_user_id P)"
  have yes: "turmas_policy db ?u (Some (turmas_professor_id C))"
    using turmas_policy_owner [OF pk P own] by simp
  have single: "filter (\<lambda>r. turmas_id r = turmas_id C) (public_turmas db) = [C]"
    by (rule filter_key_single [OF tk C])
  have same: "r = C" if "r \<in> set (public_turmas db)" "turmas_id r = turmas_id C" for r
    using distinct_map_eq [OF tk that(1) C that(2)] .
  have tgt: "\<forall>r \<in> set (public_turmas db).
      (turmas_policy db ?u (Some (turmas_professor_id r)) \<and> turmas_policy db ?u (Some (turmas_professor_id r))
        \<and> turmas_id r = turmas_id C) = (turmas_id r = turmas_id C)"
    using yes same by auto
  have "select_turmas db ?u (\<lambda>r. turmas_id r = turmas_id C)
        = filter (\<lambda>r. turmas_policy db ?u (Some (turmas_professor_id r))) [C]"
    unfolding select_turmas_def turmas_select_policy_def single [symmetric] filter_filter
    by (simp add: conj_commute)
  with yes show "select_turmas db ?u (\<lambda>r. turmas_id r = turmas_id C) = [C]" by simp
  show "delete_turmas db ?u (\<lambda>r. turmas_id r = turmas_id C)
             = (cascade_atividades [turmas_id C]
                  (db\<lparr>public_turmas := filter (\<lambda>r. turmas_id r \<noteq> turmas_id C) (public_turmas db)\<rparr>), 1)"
    by (subst delete_turmas_target [where T = "\<lambda>r. turmas_id r = turmas_id C"])
       (use tgt single in \<open>simp_all add: turmas_select_policy_def turmas_delete_policy_def\<close>)
  assume keep: "turmas_id (set_clause C) = turmas_id C"
    "turmas_professor_id (set_clause C) = turmas_professor_id C"
    and chk: "turmas_periodo_check (turmas_periodo (set_clause C))"
  let ?rows = "map (\<lambda>r. if turmas_id r = turmas_id C
                        then update_turmas_updated_at now (set_clause r) else r) (public_turmas db)"
  have ids: "map turmas_id ?rows = map turmas_id (public_turmas db)"
    using same keep by (auto simp: update_turmas_updated_at_keeps)
  have cnt: "\<not> 1 < count_list (map turmas_id ?rows) (turmas_id C)"
    unfolding ids using distinct_count_le_1 [OF tk, of "turmas_id C"] by simp
  show "update_turmas db ?u now (\<lambda>r. turmas_id r = turmas_id C) set_clause = Inr (db\<lparr>public_turmas := ?rows\<rparr>, 1)"
    by (subst update_turmas_target [where T = "\<lambda>r. turmas_id r = turmas_id C"])
       (use tgt single yes keep chk cnt in
         \<open>simp_all add: turmas_select_policy_def turmas_update_policy_def Let_def
            update_turmas_updated_at_keeps\<close>)
qed

text \<open>
  C1. Let the profile P and the class C be rows of a database whose primary keys hold (as they
  do in every reachable database, \<open>keys_hold_reachable\<close>), with \<open>C.professor_id = P.id\<close>. The caller signed in as P's identity selects C, updates it
  (any SET clause that keeps the key and the owner and passes the CHECK on periodo) and deletes
  it, one row each time. For any other caller, C is in no SELECT result, and the SELECT, UPDATE
  and DELETE of C touch zero rows and leave the database as it is. What a caller reads from
  turmas is a function of the caller's own chain: two databases with the same classes in the
  caller's chain give the same result.
\<close>

theorem turmas_rows_belong_to_their_owner:
  assumes pk: "distinct (map profiles_id (public_profiles db))"
      and tk: "distinct (map turmas_id (public_turmas db))"
      and P: "P \<in> set (public_profiles db)" and C: "C \<in> set (public_turmas db)"
      and own: "turmas_professor_id C = profiles_id P"
  shows "select_turmas db (Some (profiles_user_id P)) (\<lambda>r. turmas_id r = turmas_id C) = [C]
    \<and> (turmas_id (set_clause C) = turmas_id C
         \<and> turmas_professor_id (set_clause C) = turmas_professor_id C
         \<and> turmas_periodo_check (turmas_periodo (set_clause C))
       \<longrightarrow> update_turmas db (Some (profiles_user_id P)) now (\<lambda>r. turmas_id r = turmas_id C) set_clause
             = Inr (db\<lparr>public_turmas :=
                        map (\<lambda>r. if turmas_id r = turmas_id C
                                 then update_turmas_updated_at now (set_clause r) else r)
                          (public_turmas db)\<rparr>, 1))
    \<and> delete_turmas db (Some (profiles_user_id P)) (\<lambda>r. turmas_id r = turmas_id C)
         = (cascade_atividades [turmas_id C]
              (db\<lparr>public_turmas := filter (\<lambda>r. turmas_id r \<noteq> turmas_id C) (public_turmas db)\<rparr>), 1)
    \<and> (uid \<noteq> Some (profiles_user_id P)
       \<longrightarrow> C \<notin> set (select_turmas db uid wher)
         \<and> select_turmas db uid (\<lambda>r. turmas_id r = turmas_id C) = []
         \<and> update_turmas db uid now (\<lambda>r. turmas_id r = turmas_id C) set_clause = Inr (db, 0)
         \<and> delete_turmas db uid (\<lambda>r. turmas_id r = turmas_id C) = (db, 0))
    \<and> select_turmas db uid wher = filter wher (caller_turmas db uid)
    \<and> (\<forall>db'. caller_turmas db' uid = caller_turmas db uid
          \<longrightarrow> select_turmas db' uid wher = select_turmas db uid wher)"
proof -
  note owner = turmas_owner [OF pk tk P C own]
  note others = turmas_others [OF pk tk P C own]
  show ?thesis
    by (intro conjI impI allI) (simp_all add: owner others, simp_all add: select_turmas_chain)
qed

theorem turmas_rows_belong_to_their_owner_witness:
  "select_turmas example_db (Some 1) (\<lambda>r. turmas_id r = 30) = [example_turma]
   \<and> update_turmas example_db (Some 1) 200 (\<lambda>r. turmas_id r = 30) example_rename
       = Inr (example_db\<lparr>public_turmas :=
                [example_turma\<lparr>turmas_nome := ''5o Ano B'', turmas_updated_at := 200\<rparr>]\<rparr>, 1)
   \<and> delete_turmas example_db (Some 1) (\<lambda>r. turmas_id r = 30)
       = (example_db\<lparr>public_turmas := [], public_atividades := []\<rparr>, 1)
   \<and> select_turmas example_db (Some 2) (\<lambda>r. turmas_id r = 30) = []
   \<and> update_turmas example_db (Some 2) 200 (\<lambda>r. turmas_id r = 30) example_rename
       = Inr (example_db, 0)
   \<and> delete_turmas example_db (Some 2) (\<lambda>r. turmas_id r = 30) = (example_db, 0)"
proof -
  have pk: "distinct (map profiles_id (public_profiles example_db))"
    and tk: "distinct (map turmas_id (public_turmas example_db))"
    and P: "example_profile_1 \<in> set (public_profiles example_db)"
    and C: "example_turma \<in> set (public_turmas example_db)"
    and own: "turmas_professor_id example_turma = profiles_id example_profile_1"
    by (simp_all add: example_defs)
  have ids: "turmas_id example_turma = 30" "profiles_user_id example_profile_1 = 1"
    by (simp_all add: example_defs)
  show ?thesis
    using turmas_rows_belong_to_their_owner [OF pk tk P C own, of example_rename 200 "Some 2"]
    unfolding ids
    by (simp add: example_rename_def example_defs turmas_periodo_check_def
        update_turmas_updated_at_def cascade_atividades_def)
qed

subsection \<open>Assignments\<close>

lemma update_atividades_target:
  assumes "\<forall>r \<in> set (public_atividades db).
             (atividades_select_policy db uid r \<and> atividades_update_policy db uid r \<and> wher r) = T r"
  shows "update_atividades db uid now wher set_clause =
     (let new = (\<lambda>r. update_atividades_updated_at now (set_clause r));
          old_rows = filter T (public_atividades db);
          rows = map (\<lambda>r. if T r then new r else r) (public_atividades db)
      in if \<exists>r \<in> set old_rows. \<not> atividades_update_policy db uid (new r)
           then Inl (RowSecurityViolation ''atividades'')
         else if \<exists>r \<in> set old_rows. \<not> atividades_status_check (atividades_status (new r))
           then Inl (ConstraintViolation (Check ''atividades_status_check''))
         else if \<exists>r \<in> set old_rows. \<not> atividades_tipo_check (atividades_tipo (new r))
           then Inl (ConstraintViolation (Check ''atividades_tipo_check''))
         else if \<exists>r \<in> set old_rows. 1 < count_list (map atividades_id rows) (atividades_id (new r))
           then Inl (ConstraintViolation (Unique ''atividades_pkey''))
         else if \<exists>r \<in> set old_rows. atividades_turma_id (new r) \<noteq> atividades_turma_id r
                  \<and> atividades_turma_id (new r) \<notin> set (map turmas_id (public_turmas db))
           then Inl (ConstraintViolation (ForeignKey ''atividades_turma_id_fkey''))
         else Inr (db\<lparr>public_atividades := rows\<rparr>, length old_rows))"
proof -
  have f: "filter (\<lambda>r. atividades_select_policy db uid r \<and> atividades_update_policy db uid r \<and> wher r)
             (public_atividades db) = filter T (public_atividades db)"
    using assms by (intro filter_cong) auto
  have m: "map (\<lambda>r. if atividades_select_policy db uid r \<and> atividades_update_policy db uid r \<and> wher r
                     then g r else r) (public_atividades db)
           = map (\<lambda>r. if T r then g r else r) (public_atividades db)" for g
    using assms by (intro map_cong) auto
  show ?thesis
    unfolding update_atividades_def Let_def f m ..
qed

lemma delete_atividades_target:
  assumes "\<forall>r \<in> set (public_atividades db).
             (atividades_select_policy db uid r \<and> atividades_delete_policy db uid r \<and> wher r) = T r"
  shows "delete_atividades db uid wher =
     (db\<lparr>public_atividades := filter (\<lambda>r. \<not> T r) (public_atividades db)\<rparr>,
      length (filter T (public_atividades db)))"
proof -
  have f: "filter (\<lambda>r. atividades_select_policy db uid r \<and> atividades_delete_policy db uid r \<and> wher r)
             (public_atividades db) = filter T (public_atividades db)"
    using assms by (intro filter_cong) auto
  have n: "filter (\<lambda>r. \<not> (atividades_select_policy db uid r \<and> atividades_delete_policy db uid r \<and> wher r))
             (public_atividades db) = filter (\<lambda>r. \<not> T r) (public_atividades db)"
    using assms by (intro filter_cong) auto
  show ?thesis
    unfolding delete_atividades_def Let_def f n ..
qed

lemma atividades_statements:
  assumes ak: "distinct (map atividades_id (public_atividades db))"
      and A: "A \<in> set (public_atividades db)"
  shows "atividades_policy db uid (Some (atividades_turma_id A))
         \<Longrightarrow> select_atividades db uid (\<lambda>r. atividades_id r = atividades_id A) = [A]"
    and "\<not> atividades_policy db uid (Some (atividades_turma_id A))
         \<Longrightarrow> select_atividades db uid (\<lambda>r. atividades_id r = atividades_id A) = []"
    and "\<not> atividades_policy db uid (Some (atividades_turma_id A))
         \<Longrightarrow> update_atividades db uid now (\<lambda>r. atividades_id r = atividades_id A) set_clause = Inr (db, 0)"
    and "\<not> atividades_policy db uid (Some (atividades_turma_id A))
         \<Longrightarrow> delete_atividades db uid (\<lambda>r. atividades_id r = atividades_id A) = (db, 0)"
    and "atividades_policy db uid (Some (atividades_turma_id A))
         \<Longrightarrow> delete_atividades db uid (\<lambda>r. atividades_id r = atividades_id A)
             = (db\<lparr>public_atividades :=
                     filter (\<lambda>r. atividades_id r \<noteq> atividades_id A) (public_atividades db)\<rparr>, 1)"
    and "atividades_policy db uid (Some (atividades_turma_id A))
         \<Longrightarrow> atividades_id (set_clause A) = atividades_id A
         \<Longrightarrow> atividades_turma_id (set_clause A) = atividades_turma_id A
         \<Longrightarrow> atividades_status_check (atividades_status (set_clause A))
         \<Longrightarrow> atividades_tipo_check (atividades_tipo (set_clause A))
         \<Longrightarrow> update_atividades db uid now (\<lambda>r. atividades_id r = atividades_id A) set_clause
             = Inr (db\<lparr>public_atividades :=
                        map (\<lambda>r. if atividades_id r = atividades_id A
                                 then update_atividades_updated_at now (set_clause r) else r)
                          (public_atividades db)\<rparr>, 1)"
proof -
  have single: "filter (\<lambda>r. atividades_id r = atividades_id A) (public_atividades db) = [A]"
    by (rule filter_key_single [OF ak A])
  have same: "r = A" if "r \<in> set (public_atividades db)" "atividades_id r = atividades_id A" for r
    using distinct_map_eq [OF ak that(1) A that(2)] .
  have sel: "select_atividades db uid (\<lambda>r. atividades_id r = atividades_id A)
        = filter (\<lambda>r. atividades_policy db uid (Some (atividades_turma_id r))) [A]"
    unfolding select_atividades_def atividades_select_policy_def single [symmetric] filter_filter
    by (simp add: conj_commute)
  {
    assume yes: "atividades_policy db uid (Some (atividades_turma_id A))"
    from sel yes show "select_atividades db uid (\<lambda>r. atividades_id r = atividades_id A) = [A]"
      by simp
    have tgt: "\<forall>r \<in> set (public_atividades db).
      (atividades_policy db uid (Some (atividades_turma_id r))
        \<and> atividades_policy db uid (Some (atividades_turma_id r))
        \<and> atividades_id r = atividades_id A) = (atividades_id r = atividades_id A)"
      using yes same by auto
    show "delete_atividades db uid (\<lambda>r. atividades_id r = atividades_id A)
             = (db\<lparr>public_atividades :=
                     filter (\<lambda>r. atividades_id r \<noteq> atividades_id A) (public_atividades db)\<rparr>, 1)"
      by (subst delete_atividades_target [where T = "\<lambda>r. atividades_id r = atividades_id A"])
         (use tgt single in \<open>simp_all add: atividades_select_policy_def atividades_delete_policy_def\<close>)
    assume keep: "atividades_id (set_clause A) = atividades_id A"
      "atividades_turma_id (set_clause A) = atividades_turma_id A"
      and chk: "atividades_status_check (atividades_status (set_clause A))"
        "atividades_tipo_check (atividades_tipo (set_clause A))"
    let ?rows = "map (\<lambda>r. if atividades_id r = atividades_id A
                          then update_atividades_updated_at now (set_clause r) else r)
                   (public_atividades db)"
    have ids: "map atividades_id ?rows = map atividades_id (public_atividades db)"
      using same keep by (auto simp: update_atividades_updated_at_keeps)
    have cnt: "\<not> 1 < count_list (map atividades_id ?rows) (atividades_id A)"
      unfolding ids using distinct_count_le_1 [OF ak, of "atividades_id A"] by simp
    show "update_atividades db uid now (\<lambda>r. atividades_id r = atividades_id A) set_clause
            = Inr (db\<lparr>public_atividades := ?rows\<rparr>, 1)"
      by (subst update_atividades_target [where T = "\<lambda>r. atividades_id r = atividades_id A"])
         (use tgt single yes keep chk cnt in
           \<open>simp_all add: atividades_select_policy_def atividades_update_policy_def Let_def
              update_atividades_updated_at_keeps\<close>)
  }
  {
    assume no: "\<not> atividades_policy db uid (Some (atividades_turma_id A))"
    from sel no show "select_atividades db uid (\<lambda>r. atividades_id r = atividades_id A) = []"
      by simp
    have tgt: "\<forall>r \<in> set (public_atividades db).
      (atividades_policy db uid (Some (atividades_turma_id r))
        \<and> atividades_policy db uid (Some (atividades_turma_id r))
        \<and> atividades_id r = atividades_id A) = False"
      using no same by auto
    show "update_atividades db uid now (\<lambda>r. atividades_id r = atividades_id A) set_clause = Inr (db, 0)"
      by (subst update_atividades_target [where T = "\<lambda>r. False"])
         (use tgt in \<open>simp_all add: atividades_select_policy_def atividades_update_policy_def\<close>)
    show "delete_atividades db uid (\<lambda>r. atividades_id r = atividades_id A) = (db, 0)"
      by (subst delete_atividades_target [where T = "\<lambda>r. False"])
         (use tgt in \<open>simp_all add: atividades_select_policy_def atividades_delete_policy_def\<close>)
  }
qed

lemma insert_atividades_refused_iff:
  "insert_atividades db uid now fresh r = Inl (RowSecurityViolation ''atividades'')
   \<longleftrightarrow> \<not> atividades_policy db uid (column None (new_atividades_turma_id r))"
  by (simp add: insert_atividades_def Let_def atividades_insert_policy_def)

text \<open>
  C2. Let the assignment A be a row of a database whose primary keys hold, C its class and P the
  profile of that class (in every reachable database the keys hold and each assignment has its
  class and profile, \<open>keys_hold_reachable\<close> and \<open>reachable_chain\<close>). Each of the four policies of atividades admits A for a caller if and
  only if the caller is P's identity (assignment, class, profile: two references). The statements
  follow the policies: an INSERT for class C is refused by the policy exactly for the other
  callers; P's identity selects, updates and deletes A, one row each time; for any other caller
  A is in no SELECT result, the SELECT of A is empty, and UPDATE and DELETE of A touch zero rows.
\<close>

theorem atividades_rows_belong_to_their_owner:
  assumes pk: "distinct (map profiles_id (public_profiles db))"
      and tk: "distinct (map turmas_id (public_turmas db))"
      and ak: "distinct (map atividades_id (public_atividades db))"
      and P: "P \<in> set (public_profiles db)" and C: "C \<in> set (public_turmas db)"
      and A: "A \<in> set (public_atividades db)"
      and own: "turmas_professor_id C = profiles_id P"
      and cls: "atividades_turma_id A = turmas_id C"
  shows "(atividades_select_policy db uid A \<longleftrightarrow> uid = Some (profiles_user_id P))
    \<and> (atividades_insert_policy db uid (Some (atividades_turma_id A)) \<longleftrightarrow> uid = Some (profiles_user_id P))
    \<and> (atividades_update_policy db uid A \<longleftrightarrow> uid = Some (profiles_user_id P))
    \<and> (atividades_delete_policy db uid A \<longleftrightarrow> uid = Some (profiles_user_id P))
    \<and> (column None (new_atividades_turma_id r) = Some (turmas_id C)
        \<longrightarrow> (insert_atividades db uid now fresh r = Inl (RowSecurityViolation ''atividades'')
              \<longleftrightarrow> uid \<noteq> Some (profiles_user_id P)))
    \<and> (uid = Some (profiles_user_id P)
        \<longrightarrow> select_atividades db uid (\<lambda>r. atividades_id r = atividades_id A) = [A]
          \<and> delete_atividades db uid (\<lambda>r. atividades_id r = atividades_id A)
             = (db\<lparr>public_atividades :=
                     filter (\<lambda>r. atividades_id r \<noteq> atividades_id A) (public_atividades db)\<rparr>, 1)
          \<and> (atividades_id (set_clause A) = atividades_id A
              \<and> atividades_turma_id (set_clause A) = atividades_turma_id A
              \<and> atividades_status_check (atividades_status (set_clause A))
              \<and> atividades_tipo_check (atividades_tipo (set_clause A))
             \<longrightarrow> update_atividades db uid now (\<lambda>r. atividades_id r = atividades_id A) set_clause
                 = Inr (db\<lparr>public_atividades :=
                        map (\<lambda>r. if atividades_id r = atividades_id A
                                 then update_atividades_updated_at now (set_clause r) else r)
                          (public_atividades db)\<rparr>, 1)))
    \<and> (uid \<noteq> Some (profiles_user_id P)
        \<longrightarrow> A \<notin> set (select_atividades db uid wher)
          \<and> select_atividades db uid (\<lambda>r. atividades_id r = atividades_id A) = []
          \<and> update_atividades db uid now (\<lambda>r. atividades_id r = atividades_id A) set_clause = Inr (db, 0)
          \<and> delete_atividades db uid (\<lambda>r. atividades_id r = atividades_id A) = (db, 0))
    \<and> select_atividades db uid wher = filter wher (caller_atividades db uid)"
proof -
  note pol = atividades_policy_owner [OF pk tk P C own, of uid]
  have polA: "atividades_policy db uid (Some (atividades_turma_id A)) \<longleftrightarrow> uid = Some (profiles_user_id P)"
    using pol cls by simp
  note st = atividades_statements [OF ak A, of uid, unfolded polA]
  have hidden: "A \<notin> set (select_atividades db uid wher)" if "uid \<noteq> Some (profiles_user_id P)"
    using that polA by (simp add: select_atividades_def atividades_select_policy_def)
  show ?thesis
  proof (intro conjI impI)
    show "insert_atividades db uid now fresh r = Inl (RowSecurityViolation ''atividades'')
          \<longleftrightarrow> uid \<noteq> Some (profiles_user_id P)"
      if "column None (new_atividades_turma_id r) = Some (turmas_id C)"
      using that pol by (simp add: insert_atividades_refused_iff)
  qed (use polA st hidden in \<open>simp_all add: atividades_select_policy_def atividades_insert_policy_def
        atividades_update_policy_def atividades_delete_policy_def select_atividades_chain\<close>)
qed

theorem atividades_rows_belong_to_their_owner_witness:
  "select_atividades example_db (Some 1) (\<lambda>r. atividades_id r = 40) = [example_atividade]
   \<and> update_atividades example_db (Some 1) 200 (\<lambda>r. atividades_id r = 40) example_finish
       = Inr (example_db\<lparr>public_atividades :=
                [example_atividade\<lparr>atividades_status := Some ''finalizada'',
                                   atividades_updated_at := 200\<rparr>]\<rparr>, 1)
   \<and> delete_atividades example_db (Some 1) (\<lambda>r. atividades_id r = 40)
       = (example_db\<lparr>public_atividades := []\<rparr>, 1)
   \<and> select_atividades example_db (Some 2) (\<lambda>r. atividades_id r = 40) = []
   \<and> insert_atividades example_db (Some 2) 200 41 example_atividade_insert
       = Inl (RowSecurityViolation ''atividades'')
   \<and> update_atividades example_db (Some 2) 200 (\<lambda>r. atividades_id r = 40) example_finish
       = Inr (example_db, 0)
   \<and> delete_atividades example_db (Some 2) (\<lambda>r. atividades_id r = 40) = (example_db, 0)"
proof -
  have pk: "distinct (map profiles_id (public_profiles example_db))"
    and tk: "distinct (map turmas_id (public_turmas example_db))"
    and ak: "distinct (map atividades_id (public_atividades example_db))"
    and P: "example_profile_1 \<in> set (public_profiles example_db)"
    and C: "example_turma \<in> set (public_turmas example_db)"
    and A: "example_atividade \<in> set (public_atividades example_db)"
    and own: "turmas_professor_id example_turma = profiles_id example_profile_1"
    and cls: "atividades_turma_id example_atividade = turmas_id example_turma"
    by (simp_all add: example_defs)
  have ids: "atividades_id example_atividade = 40" "profiles_user_id example_profile_1 = 1"
    "turmas_id example_turma = 30"
    by (simp_all add: example_defs)
  have col: "column None (new_atividades_turma_id example_atividade_insert) = Some 30"
    by (simp add: example_atividade_insert_def)
  note inst = atividades_rows_belong_to_their_owner [OF pk tk ak P C A own cls,
      of _ example_atividade_insert _ _ example_finish, unfolded ids]
  show ?thesis
    using inst [of "Some 1" 200] inst [of "Some 2" 200 41] col
    by (simp add: example_finish_def example_defs atividades_status_check_def
        atividades_tipo_check_def update_atividades_updated_at_def)
qed

subsection \<open>The provisioning trigger\<close>

text \<open>
  C3. A successful creation of the identity NEW adds NEW to auth.users and exactly one row to
  profiles, in one step: the row's user_id is NEW's id, its nome is the text of the member
  full_name of NEW's metadata, or 'Professor' when the metadata is NULL, has no such member or
  holds null there, and its email is NEW's email; afterwards it is the only profile of NEW.
  A failing creation returns an error and no database. Creating an identity whose id exists
  fails on the key of auth.users, so the trigger never runs again for it. In every reachable
  database each identity has exactly one profile.
\<close>

theorem handle_new_user_provisions_one_profile:
  "(create_user db now fresh NEW = Inr db' \<longrightarrow>
      users_id NEW \<notin> set (map users_id (auth_users db))
    \<and> auth_users db' = auth_users db @ [NEW]
    \<and> (\<exists>e. users_email NEW = Some e
         \<and> public_profiles db' = public_profiles db @
             [\<lparr>profiles_id = fresh, profiles_user_id = users_id NEW,
               profiles_nome =
                 (case users_raw_user_meta_data NEW of
                    None \<Rightarrow> ''Professor''
                  | Some members \<Rightarrow>
                      (case map_of members ''full_name'' of
                         Some (Some full_name) \<Rightarrow> full_name
                       | _ \<Rightarrow> ''Professor'')),
               profiles_email = e, profiles_escola = None,
               profiles_created_at = now, profiles_updated_at = now\<rparr>])
    \<and> length (filter (\<lambda>p. profiles_user_id p = users_id NEW) (public_profiles db)) = 0
    \<and> length (filter (\<lambda>p. profiles_user_id p = users_id NEW) (public_profiles db')) = 1
    \<and> public_turmas db' = public_turmas db
    \<and> public_atividades db' = public_atividades db)
   \<and> (users_id NEW \<in> set (map users_id (auth_users db)) \<longrightarrow>
        create_user db now fresh NEW = Inl (ConstraintViolation (Unique ''users_pkey'')))
   \<and> (reachable db \<longrightarrow>
        (\<forall>u \<in> set (auth_users db).
            length (filter (\<lambda>p. profiles_user_id p = users_id u) (public_profiles db)) = 1))"
proof (intro conjI impI ballI)
  assume ok: "create_user db now fresh NEW = Inr db'"
  note shape = create_user_Inr [OF ok]
  from shape(4) obtain e where e: "users_email NEW = Some e"
    and db': "db' = db\<lparr>auth_users := auth_users db @ [NEW],
                    public_profiles := public_profiles db @
                      [\<lparr>profiles_id = fresh, profiles_user_id = users_id NEW,
                        profiles_nome = COALESCE (json_get_text (users_raw_user_meta_data NEW) ''full_name'') ''Professor'',
                        profiles_email = e, profiles_escola = None,
                        profiles_created_at = now, profiles_updated_at = now\<rparr>]\<rparr>"
    by blast
  have nome: "COALESCE (json_get_text (users_raw_user_meta_data NEW) ''full_name'') ''Professor''
      = (case users_raw_user_meta_data NEW of
           None \<Rightarrow> ''Professor''
         | Some members \<Rightarrow>
             (case map_of members ''full_name'' of
                Some (Some full_name) \<Rightarrow> full_name
              | _ \<Rightarrow> ''Professor''))"
    by (simp add: json_get_text_def split: option.splits)
  have none: "filter (\<lambda>p. profiles_user_id p = users_id NEW) (public_profiles db) = []"
    using shape(2) by (force simp: filter_empty_conv)
  show "users_id NEW \<notin> set (map users_id (auth_users db))" by (rule shape(1))
  show "auth_users db' = auth_users db @ [NEW]" by (simp add: db')
  show "\<exists>e. users_email NEW = Some e
         \<and> public_profiles db' = public_profiles db @
             [\<lparr>profiles_id = fresh, profiles_user_id = users_id NEW,
               profiles_nome =
                 (case users_raw_user_meta_data NEW of
                    None \<Rightarrow> ''Professor''
                  | Some members \<Rightarrow>
                      (case map_of members ''full_name'' of
                         Some (Some full_name) \<Rightarrow> full_name
                       | _ \<Rightarrow> ''Professor'')),
               profiles_email = e, profiles_escola = None,
               profiles_created_at = now, profiles_updated_at = now\<rparr>]"
    using e by (simp add: db' nome)
  show "length (filter (\<lambda>p. profiles_user_id p = users_id NEW) (public_profiles db)) = 0"
    using none by simp
  show "length (filter (\<lambda>p. profiles_user_id p = users_id NEW) (public_profiles db')) = 1"
    using none by (simp add: db')
  show "public_turmas db' = public_turmas db" by (simp add: db')
  show "public_atividades db' = public_atividades db" by (simp add: db')
next
  assume "users_id NEW \<in> set (map users_id (auth_users db))"
  then show "create_user db now fresh NEW = Inl (ConstraintViolation (Unique ''users_pkey''))"
    by (simp add: create_user_def)
next
  fix u assume "reachable db" "u \<in> set (auth_users db)"
  then show "length (filter (\<lambda>p. profiles_user_id p = users_id u) (public_profiles db)) = 1"
    by (intro one_profile_of_identity identities_have_profiles_reachable)
qed

theorem handle_new_user_provisions_one_profile_witness:
  "create_user example_db_1 101 20 example_user_2 = Inr example_db_2
   \<and> public_profiles example_db_2 = public_profiles example_db_1 @ [example_profile_2]
   \<and> profiles_nome example_profile_1 = ''Ana''
   \<and> profiles_nome example_profile_2 = ''Professor''
   \<and> length (filter (\<lambda>p. profiles_user_id p = 2) (public_profiles example_db_2)) = 1
   \<and> create_user example_db 200 21 example_user_2 = Inl (ConstraintViolation (Unique ''users_pkey''))
   \<and> reachable example_db
   \<and> length (filter (\<lambda>p. profiles_user_id p = 1) (public_profiles example_db)) = 1
   \<and> length (filter (\<lambda>p. profiles_user_id p = 2) (public_profiles example_db)) = 1"
proof -
  have twice: "users_id example_user_2 \<in> set (map users_id (auth_users example_db))"
    by (simp add: example_defs)
  have users: "auth_users example_db = [example_user_1, example_user_2]"
    "users_id example_user_1 = 1" "users_id example_user_2 = 2"
    by (simp_all add: example_defs)
  from handle_new_user_provisions_one_profile
         [of example_db_1 101 20 example_user_2 example_db_2] example_step_2
  have a: "length (filter (\<lambda>p. profiles_user_id p = 2) (public_profiles example_db_2)) = 1"
    by (simp add: users)
  from handle_new_user_provisions_one_profile [of example_db 200 21 example_user_2] twice
  have b: "create_user example_db 200 21 example_user_2 = Inl (ConstraintViolation (Unique ''users_pkey''))"
    by blast
  from handle_new_user_provisions_one_profile [of example_db] example_db_reachable
  have c: "length (filter (\<lambda>p. profiles_user_id p = 1) (public_profiles example_db)) = 1"
    "length (filter (\<lambda>p. profiles_user_id p = 2) (public_profiles example_db)) = 1"
    by (simp_all add: users)
  show ?thesis
    using a b c example_step_2 example_db_reachable by (simp add: example_defs)
qed

subsection \<open>Cascading deletes\<close>

text \<open>
  C4. A DELETE on turmas removes, in the same step, every assignment whose turma_id is the id of
  a deleted class, and no other assignment. In every reachable database each assignment has its
  class: no statement, and no cascade, leaves an assignment that references a missing class.
\<close>

theorem deleting_a_turma_deletes_its_atividades:
  "(C \<in> set (public_turmas db) \<and> C \<notin> set (public_turmas (fst (delete_turmas db uid wher)))
      \<longrightarrow> (\<forall>a \<in> set (public_atividades (fst (delete_turmas db uid wher))).
              atividades_turma_id a \<noteq> turmas_id C))
   \<and> (a \<in> set (public_atividades (fst (delete_turmas db uid wher))) \<longleftrightarrow>
        a \<in> set (public_atividades db)
        \<and> (\<forall>t \<in> set (public_turmas db).
              turmas_id t = atividades_turma_id a
              \<longrightarrow> t \<in> set (public_turmas (fst (delete_turmas db uid wher)))))
   \<and> (reachable db \<longrightarrow>
        (\<forall>a \<in> set (public_atividades db).
           \<exists>t \<in> set (public_turmas db). turmas_id t = atividades_turma_id a))"
proof (intro conjI impI ballI)
  let ?target = "\<lambda>r. turmas_select_policy db uid r \<and> turmas_delete_policy db uid r \<and> wher r"
  show "a \<in> set (public_atividades (fst (delete_turmas db uid wher))) \<longleftrightarrow>
        a \<in> set (public_atividades db)
        \<and> (\<forall>t \<in> set (public_turmas db).
              turmas_id t = atividades_turma_id a
              \<longrightarrow> t \<in> set (public_turmas (fst (delete_turmas db uid wher))))"
    unfolding delete_turmas_simps by force
  fix b
  assume "C \<in> set (public_turmas db) \<and> C \<notin> set (public_turmas (fst (delete_turmas db uid wher)))"
    and "b \<in> set (public_atividades (fst (delete_turmas db uid wher)))"
  then show "atividades_turma_id b \<noteq> turmas_id C"
    unfolding delete_turmas_simps by force
next
  fix b assume "reachable db" "b \<in> set (public_atividades db)"
  then show "\<exists>t \<in> set (public_turmas db). turmas_id t = atividades_turma_id b"
    using atividades_have_turmas_reachable [of db]
    by (force simp: atividades_have_turmas_def)
qed

theorem deleting_a_turma_deletes_its_atividades_witness:
  "reachable example_db
   \<and> public_atividades example_db = [example_atividade]
   \<and> atividades_turma_id example_atividade = turmas_id example_turma
   \<and> fst (delete_turmas example_db (Some 1) (\<lambda>r. turmas_id r = 30))
       = example_db\<lparr>public_turmas := [], public_atividades := []\<rparr>
   \<and> example_atividade
       \<notin> set (public_atividades (fst (delete_turmas example_db (Some 1) (\<lambda>r. turmas_id r = 30))))"
proof -
  have del: "fst (delete_turmas example_db (Some 1) (\<lambda>r. turmas_id r = 30))
       = example_db\<lparr>public_turmas := [], public_atividades := []\<rparr>"
    by (simp add: delete_turmas_def cascade_atividades_def turmas_select_policy_def
        turmas_delete_policy_def turmas_policy_def own_profiles_def profiles_select_policy_def
        profiles_policy_def example_defs)
  have C: "example_turma \<in> set (public_turmas example_db)
      \<and> example_turma \<notin> set (public_turmas (fst (delete_turmas example_db (Some 1) (\<lambda>r. turmas_id r = 30))))"
    unfolding del by (simp add: example_defs)
  have cls: "atividades_turma_id example_atividade = turmas_id example_turma"
    by (simp add: example_defs)
  from deleting_a_turma_deletes_its_atividades
         [of example_turma example_db "Some 1" "\<lambda>r. turmas_id r = 30"] C cls
  have "example_atividade
       \<notin> set (public_atividades (fst (delete_turmas example_db (Some 1) (\<lambda>r. turmas_id r = 30))))"
    by blast
  with del cls example_db_reachable show ?thesis
    by (simp add: example_defs)
qed

text \<open>
  C5. Deleting the identity u removes u from auth.users and, by the cascades, exactly the rows
  of u's ownership chain: the profiles with user_id u, the classes of those profiles and the
  assignments of those classes. Afterwards the chain of u is empty.
\<close>

theorem deleting_an_identity_deletes_its_chain:
  "auth_users (delete_user db u) = filter (\<lambda>r. users_id r \<noteq> u) (auth_users db)
   \<and> public_profiles (delete_user db u)
       = filter (\<lambda>p. p \<notin> set (caller_profiles db (Some u))) (public_profiles db)
   \<and> public_turmas (delete_user db u)
       = filter (\<lambda>t. t \<notin> set (caller_turmas db (Some u))) (public_turmas db)
   \<and> public_atividades (delete_user db u)
       = filter (\<lambda>a. a \<notin> set (caller_atividades db (Some u))) (public_atividades db)
   \<and> caller_profiles (delete_user db u) (Some u) = []
   \<and> caller_turmas (delete_user db u) (Some u) = []
   \<and> caller_atividades (delete_user db u) (Some u) = []"
proof -
  have p: "caller_profiles db (Some u) = filter (\<lambda>p. profiles_user_id p = u) (public_profiles db)"
    unfolding caller_profiles_def by (rule filter_cong) auto
  have none: "caller_profiles (delete_user db u) (Some u) = []"
    by (auto simp: caller_profiles_def delete_user_simps filter_empty_conv)
  have none_t: "caller_turmas (delete_user db u) (Some u) = []"
    unfolding caller_turmas_def none by simp
  have none_a: "caller_atividades (delete_user db u) (Some u) = []"
    unfolding caller_atividades_def none_t by simp
  show ?thesis
    unfolding none none_t none_a
    unfolding caller_atividades_def caller_turmas_def filter_not_in_filter p
    by (simp add: delete_user_simps)
qed

theorem deleting_an_identity_deletes_its_chain_witness:
  "delete_user example_db 1
     = \<lparr>auth_users = [example_user_2], public_profiles = [example_profile_2],
        public_turmas = [], public_atividades = []\<rparr>
   \<and> caller_profiles example_db (Some 1) = [example_profile_1]
   \<and> caller_turmas example_db (Some 1) = [example_turma]
   \<and> caller_atividades example_db (Some 1) = [example_atividade]
   \<and> caller_profiles (delete_user example_db 1) (Some 1) = []"
proof -
  have chain: "caller_profiles example_db (Some 1) = [example_profile_1]"
    "caller_turmas example_db (Some 1) = [example_turma]"
    "caller_atividades example_db (Some 1) = [example_atividade]"
    by (simp_all add: caller_atividades_def caller_turmas_def caller_profiles_def example_defs)
  have rows: "auth_users example_db = [example_user_1, example_user_2]"
    "public_profiles example_db = [example_profile_1, example_profile_2]"
    "public_turmas example_db = [example_turma]"
    "public_atividades example_db = [example_atividade]"
    "users_id example_user_1 = 1" "users_id example_user_2 = 2"
    "example_profile_2 \<noteq> example_profile_1"
    by (simp_all add: example_defs)
  from deleting_an_identity_deletes_its_chain [of example_db 1]
  have "auth_users (delete_user example_db 1) = [example_user_2]"
    "public_profiles (delete_user example_db 1) = [example_profile_2]"
    "public_turmas (delete_user example_db 1) = []"
    "public_atividades (delete_user example_db 1) = []"
    "caller_profiles (delete_user example_db 1) (Some 1) = []"
    unfolding chain rows(1-4) by (simp_all add: rows(5-7))
  then show ?thesis
    using chain by (cases "delete_user example_db 1") simp
qed

subsection \<open>The timestamp trigger\<close>

text \<open>
  C6, as stated, fails. An INSERT stores the updated_at that the caller supplies (the column's
  default applies only when the column is omitted, and no trigger runs on INSERT), so a row can
  carry a time later than the clock. The caller with identity 1 inserts a class at time 102 with
  updated_at 1000 and renames it at time 200: the stored updated_at goes from 1000 down to 200.
\<close>

theorem updated_at_can_decrease:
  "create_user empty_database 100 10 example_user_1 = Inr example_db_1
   \<and> create_user example_db_1 101 20 example_user_2 = Inr example_db_2
   \<and> insert_turmas example_db_2 (Some 1) 102 30 future_turma_insert = Inr future_db
   \<and> map turmas_updated_at (public_turmas future_db) = [1000]
   \<and> update_turmas future_db (Some 1) 200 example_where example_rename = Inr (future_db_renamed, 1)
   \<and> map turmas_updated_at (public_turmas future_db_renamed) = [200]
   \<and> (200 :: timestamptz) < 1000"
  using example_step_1 example_step_2
  by (simp add: insert_turmas_def update_turmas_def Let_def policy_defs turmas_periodo_check_def
      update_turmas_updated_at_def future_turma_insert_def future_db_def future_db_renamed_def
      example_where_def example_rename_def example_defs)

lemma profiles_updated_at_discarded:
  "update_profiles db uid now wher (\<lambda>r. (set_clause r)\<lparr>profiles_updated_at := v\<rparr>)
     = update_profiles db uid now wher set_clause"
  by (simp add: update_profiles_def update_profiles_updated_at_def)

lemma turmas_updated_at_discarded:
  "update_turmas db uid now wher (\<lambda>r. (set_clause r)\<lparr>turmas_updated_at := v\<rparr>)
     = update_turmas db uid now wher set_clause"
  by (simp add: update_turmas_def update_turmas_updated_at_def)

lemma atividades_updated_at_discarded:
  "update_atividades db uid now wher (\<lambda>r. (set_clause r)\<lparr>atividades_updated_at := v\<rparr>)
     = update_atividades db uid now wher set_clause"
  by (simp add: update_atividades_def update_atividades_updated_at_def)

text \<open>
  C6, amended. A successful UPDATE on profiles, turmas or atividades replaces each row that it
  writes (the rows that the policies admit and the WHERE clause selects) by the SET clause's row
  with updated_at set to the time of the statement, and leaves the other rows as they are. The
  updated_at that the SET clause supplies is discarded: the statement, failing or not, does the
  same with any other supplied value. The new updated_at is not earlier than the previous one
  whenever the previous one is not later than the time of the statement.
\<close>

theorem updated_at_is_the_time_of_the_update:
  "(update_profiles db uid now pw ps = Inr (dbp, np) \<longrightarrow>
      public_profiles dbp =
        map (\<lambda>r. if profiles_select_policy uid r \<and> profiles_update_policy uid r \<and> pw r
                 then (ps r)\<lparr>profiles_updated_at := now\<rparr> else r) (public_profiles db))
   \<and> update_profiles db uid now pw (\<lambda>r. (ps r)\<lparr>profiles_updated_at := vp\<rparr>)
       = update_profiles db uid now pw ps
   \<and> (update_turmas db uid now tw ts = Inr (dbt, nt) \<longrightarrow>
      public_turmas dbt =
        map (\<lambda>r. if turmas_select_policy db uid r \<and> turmas_update_policy db uid r \<and> tw r
                 then (ts r)\<lparr>turmas_updated_at := now\<rparr> else r) (public_turmas db))
   \<and> update_turmas db uid now tw (\<lambda>r. (ts r)\<lparr>turmas_updated_at := vt\<rparr>)
       = update_turmas db uid now tw ts
   \<and> (update_atividades db uid now aw as = Inr (dba, na) \<longrightarrow>
      public_atividades dba =
        map (\<lambda>r. if atividades_select_policy db uid r \<and> atividades_update_policy db uid r \<and> aw r
                 then (as r)\<lparr>atividades_updated_at := now\<rparr> else r) (public_atividades db))
   \<and> update_atividades db uid now aw (\<lambda>r. (as r)\<lparr>atividades_updated_at := va\<rparr>)
       = update_atividades db uid now aw as
   \<and> (profiles_updated_at p \<le> now \<longrightarrow>
        profiles_updated_at p \<le> profiles_updated_at (update_profiles_updated_at now (ps p)))
   \<and> (turmas_updated_at t \<le> now \<longrightarrow>
        turmas_updated_at t \<le> turmas_updated_at (update_turmas_updated_at now (ts t)))
   \<and> (atividades_updated_at a \<le> now \<longrightarrow>
        atividades_updated_at a \<le> atividades_updated_at (update_atividades_updated_at now (as a)))"
proof (intro conjI impI)
  assume "update_profiles db uid now pw ps = Inr (dbp, np)"
  from update_profiles_Inr(1) [OF this]
  show "public_profiles dbp =
        map (\<lambda>r. if profiles_select_policy uid r \<and> profiles_update_policy uid r \<and> pw r
                 then (ps r)\<lparr>profiles_updated_at := now\<rparr> else r) (public_profiles db)"
    by (simp add: update_profiles_updated_at_def)
next
  assume "update_turmas db uid now tw ts = Inr (dbt, nt)"
  from update_turmas_Inr(1) [OF this]
  show "public_turmas dbt =
        map (\<lambda>r. if turmas_select_policy db uid r \<and> turmas_update_policy db uid r \<and> tw r
                 then (ts r)\<lparr>turmas_updated_at := now\<rparr> else r) (public_turmas db)"
    by (simp add: update_turmas_updated_at_def)
next
  assume "update_atividades db uid now aw as = Inr (dba, na)"
  from update_atividades_Inr(1) [OF this]
  show "public_atividades dba =
        map (\<lambda>r. if atividades_select_policy db uid r \<and> atividades_update_policy db uid r \<and> aw r
                 then (as r)\<lparr>atividades_updated_at := now\<rparr> else r) (public_atividades db)"
    by (simp add: update_atividades_updated_at_def)
qed (simp_all add: profiles_updated_at_discarded turmas_updated_at_discarded
      atividades_updated_at_discarded update_profiles_updated_at_def update_turmas_updated_at_def
      update_atividades_updated_at_def)

theorem updated_at_is_the_time_of_the_update_witness:
  "update_turmas example_db (Some 1) 200 example_where example_rename
     = Inr (example_db\<lparr>public_turmas :=
              [example_turma\<lparr>turmas_nome := ''5o Ano B'', turmas_updated_at := 200\<rparr>]\<rparr>, 1)
   \<and> turmas_updated_at (example_rename example_turma) = 0
   \<and> turmas_select_policy example_db (Some 1) example_turma
   \<and> example_where example_turma
   \<and> public_turmas example_db = [example_turma]
   \<and> turmas_updated_at example_turma \<le> 200"
proof -
  have upd: "update_turmas example_db (Some 1) 200 example_where example_rename
     = Inr (example_db\<lparr>public_turmas :=
              [example_turma\<lparr>turmas_nome := ''5o Ano B'', turmas_updated_at := 200\<rparr>]\<rparr>, 1)"
    by (simp add: update_turmas_def Let_def policy_defs turmas_periodo_check_def
      update_turmas_updated_at_def example_where_def example_rename_def example_defs)
  have facts: "turmas_select_policy example_db (Some 1) example_turma"
    "turmas_update_policy example_db (Some 1) example_turma"
    "example_where example_turma" "public_turmas example_db = [example_turma]"
    "turmas_updated_at example_turma \<le> 200"
    "turmas_updated_at (example_rename example_turma) = 0"
    by (simp_all add: policy_defs example_where_def example_rename_def example_defs)
  from updated_at_is_the_time_of_the_update [of example_db "Some 1" 200 _ _ _ _ _
      example_where example_rename _ 1] upd
  have "public_turmas (example_db\<lparr>public_turmas :=
              [example_turma\<lparr>turmas_nome := ''5o Ano B'', turmas_updated_at := 200\<rparr>]\<rparr>)
        = [(example_rename example_turma)\<lparr>turmas_updated_at := 200\<rparr>]"
    unfolding facts(4) using facts(1-3) by simp
  with upd facts show ?thesis by simp
qed

subsection \<open>CHECK constraints on assignments\<close>

lemma insert_atividades_bad_tipo:
  assumes "new_atividades_tipo r = Val v"
      and "v \<notin> set [''tarefa'', ''prova'', ''projeto'', ''exercicio'', ''trabalho'']"
  shows "\<exists>e. insert_atividades db uid now fresh r = Inl e"
  using assms by (simp add: insert_atividades_def Let_def atividades_tipo_check_def)

lemma insert_atividades_bad_status:
  assumes "new_atividades_status r = Val s"
      and "s \<notin> set [''ativa'', ''finalizada'', ''cancelada'']"
  shows "\<exists>e. insert_atividades db uid now fresh r = Inl e"
  using assms by (simp add: insert_atividades_def Let_def atividades_status_check_def)

lemma insert_atividades_tipo_omitted:
  assumes "insert_atividades db uid now fresh (r\<lparr>new_atividades_tipo := DEFAULT\<rparr>) = Inr db'"
  shows "\<exists>a. db' = db\<lparr>public_atividades := public_atividades db @ [a]\<rparr> \<and> atividades_tipo a = None"
    and "v \<notin> set [''tarefa'', ''prova'', ''projeto'', ''exercicio'', ''trabalho'']
         \<Longrightarrow> insert_atividades db uid now fresh (r\<lparr>new_atividades_tipo := Val v\<rparr>)
             = Inl (ConstraintViolation (Check ''atividades_tipo_check''))"
  using assms
  by (auto simp: insert_atividades_def Let_def atividades_tipo_check_def split: if_splits)

lemma insert_atividades_status_omitted:
  assumes "insert_atividades db uid now fresh (r\<lparr>new_atividades_status := DEFAULT\<rparr>) = Inr db'"
  shows "\<exists>a. db' = db\<lparr>public_atividades := public_atividades db @ [a]\<rparr>
             \<and> atividades_status a = Some ''ativa''"
    and "s \<notin> set [''ativa'', ''finalizada'', ''cancelada'']
         \<Longrightarrow> insert_atividades db uid now fresh (r\<lparr>new_atividades_status := Val s\<rparr>)
             = Inl (ConstraintViolation (Check ''atividades_status_check''))"
  using assms
  by (auto simp: insert_atividades_def Let_def atividades_status_check_def split: if_splits)

lemma insert_atividades_minimal:
  assumes "atividades_policy db uid (Some turma_id)"
      and "fresh \<notin> set (map atividades_id (public_atividades db))"
  shows "insert_atividades db uid now fresh
           \<lparr>new_atividades_id = DEFAULT, new_atividades_turma_id = Val turma_id,
            new_atividades_titulo = Val titulo, new_atividades_descricao = descricao,
            new_atividades_data_entrega = data_entrega, new_atividades_tipo = DEFAULT,
            new_atividades_status = DEFAULT, new_atividades_created_at = DEFAULT,
            new_atividades_updated_at = DEFAULT\<rparr>
         = Inr (db\<lparr>public_atividades := public_atividades db @
                 [\<lparr>atividades_id = fresh, atividades_turma_id = turma_id,
                   atividades_titulo = titulo, atividades_descricao = column None descricao,
                   atividades_data_entrega = column None data_entrega, atividades_tipo = None,
                   atividades_status = Some ''ativa'', atividades_created_at = now,
                   atividades_updated_at = now\<rparr>]\<rparr>)"
proof -
  from assms(1) have "turma_id \<in> set (map turmas_id (public_turmas db))"
    by (auto simp: atividades_policy_def own_turmas_iff)
  with assms show ?thesis
    by (simp add: insert_atividades_def Let_def atividades_insert_policy_def
        atividades_tipo_check_def atividades_status_check_def)
qed

text \<open>
  C7. An INSERT into atividades that names a tipo outside tarefa, prova, projeto, exercicio,
  trabalho, or a status outside ativa, finalizada, cancelada, fails and inserts no row, whoever
  runs it. Where the same INSERT with the tipo omitted succeeds, it stores tipo NULL, and with
  the outside tipo it fails with the violation of the CHECK constraint on tipo: the value is
  not coerced. Likewise for status, which is stored as 'ativa' when omitted. Such an INSERT
  exists: a caller whom the policy admits for a class inserts a row with tipo and status
  omitted and gets tipo NULL and status 'ativa'.
\<close>

theorem atividades_enumerations_are_checked:
  "(new_atividades_tipo r = Val v
      \<and> v \<notin> set [''tarefa'', ''prova'', ''projeto'', ''exercicio'', ''trabalho'']
     \<longrightarrow> (\<exists>e. insert_atividades db uid now fresh r = Inl e))
   \<and> (new_atividades_status r = Val s
      \<and> s \<notin> set [''ativa'', ''finalizada'', ''cancelada'']
     \<longrightarrow> (\<exists>e. insert_atividades db uid now fresh r = Inl e))
   \<and> (insert_atividades db uid now fresh (r\<lparr>new_atividades_tipo := DEFAULT\<rparr>) = Inr db0
     \<longrightarrow> (\<exists>a. db0 = db\<lparr>public_atividades := public_atividades db @ [a]\<rparr>
              \<and> atividades_tipo a = None)
        \<and> (v \<notin> set [''tarefa'', ''prova'', ''projeto'', ''exercicio'', ''trabalho'']
            \<longrightarrow> insert_atividades db uid now fresh (r\<lparr>new_atividades_tipo := Val v\<rparr>)
                = Inl (ConstraintViolation (Check ''atividades_tipo_check''))))
   \<and> (insert_atividades db uid now fresh (r\<lparr>new_atividades_status := DEFAULT\<rparr>) = Inr db1
     \<longrightarrow> (\<exists>a. db1 = db\<lparr>public_atividades := public_atividades db @ [a]\<rparr>
              \<and> atividades_status a = Some ''ativa'')
        \<and> (s \<notin> set [''ativa'', ''finalizada'', ''cancelada'']
            \<longrightarrow> insert_atividades db uid now fresh (r\<lparr>new_atividades_status := Val s\<rparr>)
                = Inl (ConstraintViolation (Check ''atividades_status_check''))))
   \<and> (atividades_policy db uid (Some turma_id)
      \<and> fresh \<notin> set (map atividades_id (public_atividades db))
     \<longrightarrow> insert_atividades db uid now fresh
           \<lparr>new_atividades_id = DEFAULT, new_atividades_turma_id = Val turma_id,
            new_atividades_titulo = Val titulo, new_atividades_descricao = descricao,
            new_atividades_data_entrega = data_entrega, new_atividades_tipo = DEFAULT,
            new_atividades_status = DEFAULT, new_atividades_created_at = DEFAULT,
            new_atividades_updated_at = DEFAULT\<rparr>
         = Inr (db\<lparr>public_atividades := public_atividades db @
                 [\<lparr>atividades_id = fresh, atividades_turma_id = turma_id,
                   atividades_titulo = titulo, atividades_descricao = column None descricao,
                   atividades_data_entrega = column None data_entrega, atividades_tipo = None,
                   atividades_status = Some ''ativa'', atividades_created_at = now,
                   atividades_updated_at = now\<rparr>]\<rparr>))"
proof (intro conjI impI)
  assume "new_atividades_tipo r = Val v
      \<and> v \<notin> set [''tarefa'', ''prova'', ''projeto'', ''exercicio'', ''trabalho'']"
  then show "\<exists>e. insert_atividades db uid now fresh r = Inl e"
    using insert_atividades_bad_tipo by blast
next
  assume "new_atividades_status r = Val s
      \<and> s \<notin> set [''ativa'', ''finalizada'', ''cancelada'']"
  then show "\<exists>e. insert_atividades db uid now fresh r = Inl e"
    using insert_atividades_bad_status by blast
next
  assume ok: "insert_atividades db uid now fresh (r\<lparr>new_atividades_tipo := DEFAULT\<rparr>) = Inr db0"
  show "\<exists>a. db0 = db\<lparr>public_atividades := public_atividades db @ [a]\<rparr> \<and> atividades_tipo a = None"
    by (rule insert_atividades_tipo_omitted(1) [OF ok])
  assume "v \<notin> set [''tarefa'', ''prova'', ''projeto'', ''exercicio'', ''trabalho'']"
  then show "insert_atividades db uid now fresh (r\<lparr>new_atividades_tipo := Val v\<rparr>)
                = Inl (ConstraintViolation (Check ''atividades_tipo_check''))"
    by (rule insert_atividades_tipo_omitted(2) [OF ok])
next
  assume ok: "insert_atividades db uid now fresh (r\<lparr>new_atividades_status := DEFAULT\<rparr>) = Inr db1"
  show "\<exists>a. db1 = db\<lparr>public_atividades := public_atividades db @ [a]\<rparr>
             \<and> atividades_status a = Some ''ativa''"
    by (rule insert_atividades_status_omitted(1) [OF ok])
  assume "s \<notin> set [''ativa'', ''finalizada'', ''cancelada'']"
  then show "insert_atividades db uid now fresh (r\<lparr>new_atividades_status := Val s\<rparr>)
                = Inl (ConstraintViolation (Check ''atividades_status_check''))"
    by (rule insert_atividades_status_omitted(2) [OF ok])
next
  assume "atividades_policy db uid (Some turma_id)
      \<and> fresh \<notin> set (map atividades_id (public_atividades db))"
  then show "insert_atividades db uid now fresh
           \<lparr>new_atividades_id = DEFAULT, new_atividades_turma_id = Val turma_id,
            new_atividades_titulo = Val titulo, new_atividades_descricao = descricao,
            new_atividades_data_entrega = data_entrega, new_atividades_tipo = DEFAULT,
            new_atividades_status = DEFAULT, new_atividades_created_at = DEFAULT,
            new_atividades_updated_at = DEFAULT\<rparr>
         = Inr (db\<lparr>public_atividades := public_atividades db @
                 [\<lparr>atividades_id = fresh, atividades_turma_id = turma_id,
                   atividades_titulo = titulo, atividades_descricao = column None descricao,
                   atividades_data_entrega = column None data_entrega, atividades_tipo = None,
                   atividades_status = Some ''ativa'', atividades_created_at = now,
                   atividades_updated_at = now\<rparr>]\<rparr>)"
    using insert_atividades_minimal by blast
qed

theorem atividades_enumerations_are_checked_witness:
  "insert_atividades example_db (Some 1) 200 41 essay_insert
     = Inl (ConstraintViolation (Check ''atividades_tipo_check''))
   \<and> insert_atividades example_db (Some 1) 200 41 (essay_insert\<lparr>new_atividades_tipo := DEFAULT\<rparr>)
     = Inr (example_db\<lparr>public_atividades := [example_atividade,
          \<lparr>atividades_id = 41, atividades_turma_id = 30,
            atividades_titulo = ''Redacao'', atividades_descricao = None,
            atividades_data_entrega = None, atividades_tipo = None,
            atividades_status = Some ''ativa'', atividades_created_at = 200,
            atividades_updated_at = 200\<rparr>]\<rparr>)
   \<and> insert_atividades example_db (Some 1) 200 41
        (essay_insert\<lparr>new_atividades_tipo := DEFAULT, new_atividades_status := Val ''pendente''\<rparr>)
     = Inl (ConstraintViolation (Check ''atividades_status_check''))"
proof -
  have pol: "atividades_policy example_db (Some 1) (Some 30)
      \<and> 41 \<notin> set (map atividades_id (public_atividades example_db))"
    by (simp add: atividades_policy_def own_turmas_def policy_defs example_defs)
  have r: "essay_insert\<lparr>new_atividades_tipo := DEFAULT\<rparr> =
           \<lparr>new_atividades_id = DEFAULT, new_atividades_turma_id = Val 30,
            new_atividades_titulo = Val ''Redacao'', new_atividades_descricao = DEFAULT,
            new_atividades_data_entrega = DEFAULT, new_atividades_tipo = DEFAULT,
            new_atividades_status = DEFAULT, new_atividades_created_at = DEFAULT,
            new_atividades_updated_at = DEFAULT\<rparr>"
    "essay_insert\<lparr>new_atividades_tipo := Val ''redacao''\<rparr> = essay_insert"
    "essay_insert\<lparr>new_atividades_tipo := DEFAULT, new_atividades_status := DEFAULT\<rparr>
       = essay_insert\<lparr>new_atividades_tipo := DEFAULT\<rparr>"
    by (simp_all add: essay_insert_def)
  note inst = atividades_enumerations_are_checked [where v = "''redacao''" and s = "''pendente''"
      and db = example_db and uid = "Some 1" and now = 200 and fresh = 41 and turma_id = 30
      and titulo = "''Redacao''" and descricao = DEFAULT and data_entrega = DEFAULT]
  from inst pol
  have ok: "insert_atividades example_db (Some 1) 200 41 (essay_insert\<lparr>new_atividades_tipo := DEFAULT\<rparr>)
     = Inr (example_db\<lparr>public_atividades := public_atividades example_db @
          [\<lparr>atividades_id = 41, atividades_turma_id = 30,
            atividades_titulo = ''Redacao'', atividades_descricao = None,
            atividades_data_entrega = None, atividades_tipo = None,
            atividades_status = Some ''ativa'', atividades_created_at = 200,
            atividades_updated_at = 200\<rparr>]\<rparr>)"
    unfolding r(1) by simp
  from inst [where r = essay_insert] ok
  have bad: "insert_atividades example_db (Some 1) 200 41 essay_insert
     = Inl (ConstraintViolation (Check ''atividades_tipo_check''))"
    unfolding r(2) by simp
  from inst [where r = "essay_insert\<lparr>new_atividades_tipo := DEFAULT\<rparr>"] ok
  have bad_status: "insert_atividades example_db (Some 1) 200 41
        (essay_insert\<lparr>new_atividades_tipo := DEFAULT, new_atividades_status := Val ''pendente''\<rparr>)
     = Inl (ConstraintViolation (Check ''atividades_status_check''))"
    unfolding r(3) by simp
  from ok bad bad_status show ?thesis
    by (simp add: example_defs)
qed

subsection \<open>Profiles\<close>

lemma select_profiles_own:
  "select_profiles db uid wher
     = filter (\<lambda>r. uid = Some (profiles_user_id r) \<and> wher r) (public_profiles db)"
  by (simp add: select_profiles_def profiles_select_policy_def profiles_policy_def conj_commute)

lemma insert_profiles_refused_iff:
  "insert_profiles db uid now fresh r = Inl (RowSecurityViolation ''profiles'')
   \<longleftrightarrow> uid = None \<or> column None (new_profiles_user_id r) \<noteq> uid"
  by (auto simp: insert_profiles_def insert_profiles_row_def Let_def profiles_insert_policy_def
      profiles_policy_def split: option.splits)

lemma caller_step_keeps_profiles:
  assumes "caller_step db db'"
  shows "prefix (map profiles_user_id (public_profiles db)) (map profiles_user_id (public_profiles db'))"
  using assms
proof cases
  case (insert_profiles uid now fresh pr)
  from insert_profiles_Inr [OF this] show ?thesis by auto
next
  case (update_profiles uid now pw ps n)
  from update_profiles_own(2) [OF this] show ?thesis by simp
next
  case (delete_profiles uid pw)
  then show ?thesis by (simp add: delete_profiles_nothing)
next
  case (insert_turmas uid now fresh tr)
  from insert_turmas_Inr [OF this] show ?thesis by auto
next
  case (update_turmas uid now tw ts n)
  from update_turmas_Inr(1) [OF this] show ?thesis by simp
next
  case (delete_turmas uid tw)
  then show ?thesis by (simp add: delete_turmas_simps)
next
  case (insert_atividades uid now fresh ar)
  from insert_atividades_Inr [OF this] show ?thesis by auto
next
  case (update_atividades uid now aw as n)
  from update_atividades_Inr(1) [OF this] show ?thesis by simp
next
  case (delete_atividades uid aw)
  then show ?thesis by (simp add: delete_atividades_simps)
qed

text \<open>
  C8. A SELECT on profiles returns the caller's own rows only; an INSERT is refused by the policy
  exactly when the new row's user_id is not the caller's identity; an UPDATE writes the caller's
  own rows only and leaves each row's user_id as it is. Row level security is enabled and no
  policy admits a DELETE, so a DELETE on profiles by any caller deletes zero rows and changes
  nothing. No statement of a caller on any of the three tables removes a profile: after it
  the profiles of before are still there, in their order and with their user_id. Deleting an
  identity removes the profiles with that user_id.
\<close>

theorem profiles_are_deleted_by_cascade_only:
  "select_profiles db uid wher
     = filter (\<lambda>r. uid = Some (profiles_user_id r) \<and> wher r) (public_profiles db)
   \<and> (insert_profiles db uid now fresh r = Inl (RowSecurityViolation ''profiles'')
        \<longleftrightarrow> uid = None \<or> column None (new_profiles_user_id r) \<noteq> uid)
   \<and> (update_profiles db uid now wher set_clause = Inr (db', n) \<longrightarrow>
        public_profiles db' =
           map (\<lambda>r. if uid = Some (profiles_user_id r) \<and> wher r
                    then update_profiles_updated_at now (set_clause r) else r) (public_profiles db)
        \<and> map profiles_user_id (public_profiles db') = map profiles_user_id (public_profiles db))
   \<and> delete_profiles db uid wher = (db, 0)
   \<and> (caller_step db db'' \<longrightarrow>
        prefix (map profiles_user_id (public_profiles db))
          (map profiles_user_id (public_profiles db'')))
   \<and> public_profiles (delete_user db u)
        = filter (\<lambda>p. profiles_user_id p \<noteq> u) (public_profiles db)"
  using update_profiles_own [of db uid now wher set_clause db' n]
    caller_step_keeps_profiles [of db db'']
  by (simp add: select_profiles_own insert_profiles_refused_iff delete_profiles_nothing
      delete_user_simps)

theorem profiles_are_deleted_by_cascade_only_witness:
  "select_profiles example_db (Some 2) example_all_profiles = [example_profile_2]
   \<and> delete_profiles example_db (Some 2) example_all_profiles = (example_db, 0)
   \<and> caller_step example_db (fst (delete_turmas example_db (Some 1) example_where))
   \<and> map profiles_user_id
        (public_profiles (fst (delete_turmas example_db (Some 1) example_where))) = [1, 2]
   \<and> public_profiles (delete_user example_db 2) = [example_profile_1]"
proof -
  have step: "caller_step example_db (fst (delete_turmas example_db (Some 1) example_where))"
    by (rule caller_step.delete_turmas)
  have rows: "public_profiles example_db = [example_profile_1, example_profile_2]"
    "profiles_user_id example_profile_1 = 1" "profiles_user_id example_profile_2 = 2"
    by (simp_all add: example_defs)
  note inst = profiles_are_deleted_by_cascade_only [of example_db "Some 2" example_all_profiles
      _ _ _ _ _ _ "fst (delete_turmas example_db (Some 1) example_where)" 2]
  have len: "length (public_profiles (fst (delete_turmas example_db (Some 1) example_where))) = 2"
    by (simp add: delete_turmas_simps rows)
  from inst step have "prefix [1, 2]
      (map profiles_user_id (public_profiles (fst (delete_turmas example_db (Some 1) example_where))))"
    by (simp add: rows)
  with len have keep: "map profiles_user_id
        (public_profiles (fst (delete_turmas example_db (Some 1) example_where))) = [1, 2]"
    by (auto simp: prefix_def)
  from inst step keep show ?thesis
    by (simp add: rows example_all_profiles_def)
qed

end
